theory Spec2Isabelle
  imports Main "HOL-Library.Char_ord" "HOL-Library.List_Lexorder" "HOL-Library.Multiset"
    "HOL-Library.Sublist" "HOL-Library.Word"
begin

chapter \<open>The program\<close>

section \<open>Dynamic values\<close>

text \<open>
  The Go sources pass request parameters and decoded JSON around as
  \<^verbatim>\<open>interface{}\<close> values.  The dynamic types that occur are collected in one
  datatype.  A Go \<^verbatim>\<open>map[string]interface{}\<close> is represented by its entries in the
  order in which a \<^verbatim>\<open>range\<close> loop visits them; Go leaves that order unspecified, so
  every statement about a map has to hold for every order of the entries.
  A \<^verbatim>\<open>float64\<close> is kept as its IEEE-754 bit pattern, an \<^verbatim>\<open>int\<close> as a 64-bit
  word read as a signed number, a \<^verbatim>\<open>time.Time\<close> as nanoseconds since the epoch.
\<close>

datatype jvalue =
    JNil
  | JBool bool
  | JInt "64 word"
  | JFloat "64 word"
  | JStr string
  | JArr "jvalue list"
  | JMap "(string \<times> jvalue) list"
  | JTime int

type_synonym gomap = "(string \<times> jvalue) list"

text \<open>Lookup \<^verbatim>\<open>v, ok := m[k]\<close>: the first entry with the key.\<close>

definition lookup :: "gomap \<Rightarrow> string \<Rightarrow> jvalue option" where
  "lookup m k = map_of m k"

text \<open>Assignment \<^verbatim>\<open>m[k] = v\<close>: an existing entry is overwritten in place, a new one is
  added.\<close>

fun assign :: "gomap \<Rightarrow> string \<Rightarrow> jvalue \<Rightarrow> gomap" where
  "assign [] k v = [(k, v)]"
| "assign ((k', v') # m) k v = (if k' = k then (k, v) # m else (k', v') # assign m k v)"

section \<open>Rendering of scalars\<close>

text \<open>\<^verbatim>\<open>strconv.Itoa\<close>: the decimal digits, with a leading minus sign for a negative
  number.\<close>

fun decimal :: "nat \<Rightarrow> string" where
  "decimal n =
     (if n < 10 then [''0123456789'' ! n]
      else decimal (n div 10) @ [''0123456789'' ! (n mod 10)])"

declare decimal.simps [simp del]

definition Itoa :: "int \<Rightarrow> string" where
  "Itoa i = (if i < 0 then CHR ''-'' # decimal (nat (- i)) else decimal (nat i))"

definition FormatBool :: "bool \<Rightarrow> string" where
  "FormatBool b = (if b then ''true'' else ''false'')"

text \<open>\<^verbatim>\<open>strings.Join\<close>.\<close>

fun Join :: "string list \<Rightarrow> string \<Rightarrow> string" where
  "Join [] sep = []"
| "Join [x] sep = x"
| "Join (x # y # ys) sep = x @ sep @ Join (y # ys) sep"

section \<open>Canonical query string (\<^verbatim>\<open>generateQueryParams\<close>, \<^verbatim>\<open>processValue\<close>)\<close>

text \<open>
  \<^verbatim>\<open>processValue\<close> flattens one value below a key prefix.  The two \<^verbatim>\<open>range\<close> loops are
  the functions \<open>processMapEntries\<close> and \<open>processArrayItems\<close>.  The type switch
  has no default case: a value of any other dynamic type contributes nothing.
  \<^verbatim>\<open>strconv.FormatFloat(v, 'f', -1, 64)\<close> is the parameter \<open>ff\<close>.
\<close>

function (sequential)
  processValue :: "(64 word \<Rightarrow> string) \<Rightarrow> string \<Rightarrow> jvalue \<Rightarrow> string list" and
  processMapEntries :: "(64 word \<Rightarrow> string) \<Rightarrow> string \<Rightarrow> gomap \<Rightarrow> string list" and
  processArrayItems :: "(64 word \<Rightarrow> string) \<Rightarrow> string \<Rightarrow> nat \<Rightarrow> jvalue list \<Rightarrow> string list"
where
  "processValue ff pfx (JMap v) = processMapEntries ff pfx v"
| "processValue ff pfx (JArr v) = processArrayItems ff pfx 0 v"
| "processValue ff pfx (JStr v) = [pfx @ ''='' @ v]"
| "processValue ff pfx (JInt v) = [pfx @ ''='' @ Itoa (sint v)]"
| "processValue ff pfx (JFloat v) = [pfx @ ''='' @ ff v]"
| "processValue ff pfx (JBool v) = [pfx @ ''='' @ FormatBool v]"
| "processValue ff pfx JNil = []"
| "processValue ff pfx (JTime v) = []"
| "processMapEntries ff pfx [] = []"
| "processMapEntries ff pfx ((k, nestedValue) # rest) =
     processValue ff (pfx @ ''.'' @ k) nestedValue @ processMapEntries ff pfx rest"
| "processArrayItems ff pfx i [] = []"
| "processArrayItems ff pfx i (item # rest) =
     processValue ff (pfx @ ''['' @ Itoa (int i) @ '']'') item
       @ processArrayItems ff pfx (Suc i) rest"
  by pat_completeness auto
termination
  by (relation "measure (\<lambda>x. case x of
        Inl (ff, p, v) \<Rightarrow> size v
      | Inr (Inl (ff, p, m)) \<Rightarrow> size_list (size_prod (\<lambda>_. 0) size) m
      | Inr (Inr (ff, p, i, xs)) \<Rightarrow> size_list size xs)") auto

text \<open>The loop over the top-level keys of \<^verbatim>\<open>generateQueryParams\<close>: the key itself is the
  prefix.\<close>

fun collectTopLevel :: "(64 word \<Rightarrow> string) \<Rightarrow> gomap \<Rightarrow> string list" where
  "collectTopLevel ff [] = []"
| "collectTopLevel ff ((k, v) # rest) = processValue ff k v @ collectTopLevel ff rest"

text \<open>\<^verbatim>\<open>sort.Strings\<close> orders by Go's \<^verbatim>\<open><\<close> on strings, the lexicographic order on bytes,
  which is the order of \<^typ>\<open>string\<close> here.  A sorted list is determined by its elements, so
  the library's sorting algorithm does not matter.\<close>

definition generateQueryParams :: "(64 word \<Rightarrow> string) \<Rightarrow> gomap \<Rightarrow> string" where
  "generateQueryParams ff data = Join (sort (collectTopLevel ff data)) ''&''"

section \<open>Equality up to iteration order\<close>

text \<open>Two values are the same up to the iteration order of the maps in them.\<close>

inductive
  sameValue :: "jvalue \<Rightarrow> jvalue \<Rightarrow> bool" and
  sameMap :: "gomap \<Rightarrow> gomap \<Rightarrow> bool" and
  sameItems :: "jvalue list \<Rightarrow> jvalue list \<Rightarrow> bool"
where
  sv_nil: "sameValue JNil JNil"
| sv_bool: "sameValue (JBool b) (JBool b)"
| sv_int: "sameValue (JInt i) (JInt i)"
| sv_float: "sameValue (JFloat f) (JFloat f)"
| sv_str: "sameValue (JStr s) (JStr s)"
| sv_time: "sameValue (JTime t) (JTime t)"
| sv_arr: "sameItems xs ys \<Longrightarrow> sameValue (JArr xs) (JArr ys)"
| sv_map: "sameMap m m' \<Longrightarrow> sameValue (JMap m) (JMap m')"
| sm_empty: "sameMap [] []"
| sm_entry: "sameValue v v' \<Longrightarrow> sameMap m m' \<Longrightarrow> sameMap ((k, v) # m) ((k, v') # m')"
| sm_swap: "sameMap m m' \<Longrightarrow> sameMap (a # b # m) (b # a # m')"
| sm_trans: "sameMap m m' \<Longrightarrow> sameMap m' m'' \<Longrightarrow> sameMap m m''"
| si_empty: "sameItems [] []"
| si_item: "sameValue x y \<Longrightarrow> sameItems xs ys \<Longrightarrow> sameItems (x # xs) (y # ys)"

section \<open>Errors and the outside world\<close>

text \<open>
  Go errors are values.  The package builds its own with \<^verbatim>\<open>errors.New\<close> and
  \<^verbatim>\<open>fmt.Errorf\<close> (\<open>ErrorString\<close>, with the formatted text); every other error comes
  out of a library call (\<^verbatim>\<open>net/http\<close>, \<^verbatim>\<open>io\<close>, \<^verbatim>\<open>encoding/json\<close>) and is passed on
  unchanged (\<open>External\<close>).
\<close>

datatype error = External string | ErrorString string

record http_request =
  Method :: string
  URL :: string
  ReqBody :: "string option"
  Header :: "(string \<times> string) list"

text \<open>\<open>Body\<close> is what \<^verbatim>\<open>io.ReadAll(resp.Body)\<close> returns.\<close>

record http_response =
  StatusCode :: int
  Status :: string
  Body :: "error + string"

text \<open>The response types of the broker credential exchange (\<^verbatim>\<open>mqtt_ecoflow.go\<close>).  The
  anonymous structs \<^verbatim>\<open>Data\<close> and \<^verbatim>\<open>User\<close> of \<^verbatim>\<open>MqttLoginResponse\<close> are the records
  \<open>LoginData\<close> and \<open>LoginUser\<close>.\<close>

record LoginUser =
  UserId :: string
  Email :: string
  Name :: string
  Icon :: string
  State :: int
  Regtype :: string
  CreateTime :: string
  Destroyed :: string
  RegisterLang :: string
  Source :: string
  Administrator :: bool
  Appid :: int
  CountryCode :: string

record LoginData =
  User :: LoginUser
  Token :: string

record MqttLoginResponse =
  Code :: string
  Message :: string
  Data :: LoginData

record MqttConnectionConfig =
  CertificateAccount :: string
  CertificatePassword :: string
  Url :: string
  Port :: string
  Protocol :: string
  UserId :: string

record MqttCredentialsResponse =
  Code :: string
  Message :: string
  Data :: MqttConnectionConfig

text \<open>The response types of the signed API.\<close>

record DeviceInfo =
  SN :: string
  Online :: int

record DeviceListResponse =
  Code :: string
  Message :: string
  Devices :: "DeviceInfo list"
  EagleEyeTraceID :: string
  Tid :: string

text \<open>
  Everything the client code calls but does not implement is a field of \<open>world\<close>:
  the float formatter, HMAC-SHA256 (key first, then message; the result is the raw
  digest), the random source (\<open>Intn w n\<close> is what \<^verbatim>\<open>rand.Intn(n)\<close> returns) and the clock
  read by one request, the JSON encoder (\<open>Marshal\<close> gives the bytes only, since
  \<^verbatim>\<open>Execute\<close> drops the error of \<^verbatim>\<open>json.Marshal\<close>) and decoders (one per target type; a
  decoder into a map yields \<open>None\<close> for the nil map that the JSON text \<^verbatim>\<open>null\<close>
  leaves), and the HTTP transport.  \<open>NewRequestError\<close> is the error of
  \<^verbatim>\<open>http.NewRequestWithContext\<close> for a method and URL, if any.
\<close>

record world =
  FormatFloat :: "64 word \<Rightarrow> string"
  hmacSHA256 :: "string \<Rightarrow> string \<Rightarrow> string"
  Intn :: "nat \<Rightarrow> nat"
  UnixNano :: int
  Marshal :: "gomap \<Rightarrow> string"
  NewRequestError :: "string \<Rightarrow> string \<Rightarrow> error option"
  Do :: "http_request \<Rightarrow> error + http_response"
  UnmarshalDeviceList :: "string \<Rightarrow> error + DeviceListResponse"
  UnmarshalMap :: "string \<Rightarrow> error + gomap option"

section \<open>Request signing\<close>

definition ecoflowAPI :: string where "ecoflowAPI = ''https://api.ecoflow.com''"
definition deviceListPath :: string where "deviceListPath = ''/iot-open/sign/device/list''"
definition getAllQuotePath :: string where "getAllQuotePath = ''/iot-open/sign/device/quota/all''"

definition accessKeyHeader :: string where "accessKeyHeader = ''accessKey''"
definition nonceHeader :: string where "nonceHeader = ''nonce''"
definition timestampHeader :: string where "timestampHeader = ''timestamp''"
definition signHeader :: string where "signHeader = ''sign''"

record Client =
  accessToken :: string
  secretToken :: string

text \<open>The \<^verbatim>\<open>httpClient\<close> field is the transport of \<open>world\<close>; \<^verbatim>\<open>getSignParameters\<close> is
  always the closure over \<^verbatim>\<open>generateSignParameters\<close> that \<^verbatim>\<open>NewHttpRequest\<close> installs.
  \<open>requestParameters\<close> is \<open>None\<close> for a nil map.\<close>

text \<open>The field \<^verbatim>\<open>method\<close> is \<open>method'\<close> here.\<close>

record HttpRequest =
  method' :: string
  uri :: string
  requestParameters :: "gomap option"
  accessKey :: string
  secretKey :: string

record signParameters =
  nonce :: string
  timestamp :: string
  accessKey :: string
  sign :: string
  queryParams :: string

text \<open>A \<^verbatim>\<open>range\<close> over a nil map visits nothing, and a read of a nil map finds
  nothing.\<close>

definition entries :: "gomap option \<Rightarrow> gomap" where
  "entries m = (case m of None \<Rightarrow> [] | Some es \<Rightarrow> es)"

text \<open>\<^verbatim>\<open>hex.EncodeToString\<close>: two digits of \<^verbatim>\<open>0123456789abcdef\<close> per byte, high nibble
  first.\<close>

definition hextable :: string where "hextable = ''0123456789abcdef''"

definition EncodeToString :: "string \<Rightarrow> string" where
  "EncodeToString src =
     concat (map (\<lambda>v. [hextable ! (of_char v div 16), hextable ! (of_char v mod 16)]) src)"

definition encryptHmacSHA256 :: "world \<Rightarrow> string \<Rightarrow> string \<Rightarrow> string" where
  "encryptHmacSHA256 w message secret = EncodeToString (hmacSHA256 w secret message)"

definition generateTimestamp :: "world \<Rightarrow> string" where
  "generateTimestamp w = Itoa (UnixNano w)"

definition generateNonce :: "world \<Rightarrow> string" where
  "generateNonce w = Itoa (int (Intn w 900000) + 100000)"

definition getKeyValueString :: "HttpRequest \<Rightarrow> string \<Rightarrow> string \<Rightarrow> string \<Rightarrow> string" where
  "getKeyValueString r queryString nonce' timestamp' =
     (let keyValueString = accessKeyHeader @ ''='' @ HttpRequest.accessKey r @ ''&'' @
            nonceHeader @ ''='' @ nonce' @ ''&'' @
            timestampHeader @ ''='' @ timestamp'
      in if queryString \<noteq> [] then queryString @ ''&'' @ keyValueString
         else keyValueString)"

definition generateSign :: "world \<Rightarrow> HttpRequest \<Rightarrow> string \<Rightarrow> string \<Rightarrow> string \<Rightarrow> string" where
  "generateSign w r queryString nonce' timestamp' =
     encryptHmacSHA256 w (getKeyValueString r queryString nonce' timestamp') (secretKey r)"

definition generateSignParameters :: "world \<Rightarrow> HttpRequest \<Rightarrow> signParameters" where
  "generateSignParameters w r =
     (let nonce' = generateNonce w;
          timestamp' = generateTimestamp w;
          queryParams' = generateQueryParams (FormatFloat w) (entries (requestParameters r))
      in \<lparr> nonce = nonce', timestamp = timestamp',
           signParameters.accessKey = HttpRequest.accessKey r,
           sign = generateSign w r queryParams' nonce' timestamp',
           queryParams = queryParams' \<rparr>)"

definition NewHttpRequest ::
  "string \<Rightarrow> string \<Rightarrow> gomap option \<Rightarrow> string \<Rightarrow> string \<Rightarrow> HttpRequest" where
  "NewHttpRequest m uri' params accessKey' secretKey' =
     \<lparr> method' = m, uri = uri', requestParameters = params,
       HttpRequest.accessKey = accessKey', secretKey = secretKey' \<rparr>"

section \<open>Signed HTTP calls\<close>

text \<open>
  The request that \<^verbatim>\<open>Execute\<close> hands to the transport: the method switch, then the four
  signing headers.  \<^verbatim>\<open>Header.Add\<close> appends; header names are kept as the source
  writes them.
\<close>

definition signingHeaders :: "HttpRequest \<Rightarrow> signParameters \<Rightarrow> (string \<times> string) list" where
  "signingHeaders r signParams =
     [(accessKeyHeader, HttpRequest.accessKey r), (nonceHeader, nonce signParams),
      (timestampHeader, timestamp signParams), (signHeader, sign signParams)]"

definition prepareRequest :: "world \<Rightarrow> HttpRequest \<Rightarrow> signParameters \<Rightarrow> error + http_request" where
  "prepareRequest w r signParams =
     (let requestURI = uri r @ ''?'' @ queryParams signParams;
          reqBody = (case requestParameters r of None \<Rightarrow> [] | Some m \<Rightarrow> Marshal w m)
      in if method' r = ''GET'' then
           (case NewRequestError w ''GET'' requestURI of
              Some err \<Rightarrow> Inl err
            | None \<Rightarrow> Inr \<lparr> Method = ''GET'', URL = requestURI, ReqBody = None,
                             Header = signingHeaders r signParams \<rparr>)
         else if method' r = ''POST'' then
           (case NewRequestError w ''POST'' (uri r) of
              Some err \<Rightarrow> Inl err
            | None \<Rightarrow> Inr \<lparr> Method = ''POST'', URL = uri r, ReqBody = Some reqBody,
                             Header = (''Content-Type'', ''application/json;charset=UTF-8'')
                                        # signingHeaders r signParams \<rparr>)
         else if method' r = ''PUT'' then
           (case NewRequestError w ''PUT'' (uri r) of
              Some err \<Rightarrow> Inl err
            | None \<Rightarrow> Inr \<lparr> Method = ''PUT'', URL = uri r, ReqBody = Some reqBody,
                             Header = (''Content-Type'', ''application/json;charset=UTF-8'')
                                        # signingHeaders r signParams \<rparr>)
         else Inl (ErrorString ''unsupported http method''))"

definition Execute :: "world \<Rightarrow> HttpRequest \<Rightarrow> error + string" where
  "Execute w r =
     (let signParams = generateSignParameters w r;
          requestURI = uri r @ ''?'' @ queryParams signParams
      in case prepareRequest w r signParams of
           Inl err \<Rightarrow> Inl err
         | Inr httpReq \<Rightarrow>
             (case Do w httpReq of
                Inl err \<Rightarrow> Inl err
              | Inr resp \<Rightarrow>
                  if StatusCode resp \<noteq> 200 then
                    Inl (ErrorString (''response status is failed|url='' @ requestURI @
                                      '', statusCode='' @ Status resp))
                  else Body resp))"

text \<open>\<^verbatim>\<open>GetDeviceList\<close> returns a pair: on an application error both the decoded response
  and the error are set.\<close>

definition GetDeviceList :: "world \<Rightarrow> Client \<Rightarrow> DeviceListResponse option \<times> error option" where
  "GetDeviceList w c =
     (let request = NewHttpRequest ''GET'' (ecoflowAPI @ deviceListPath) None
                      (accessToken c) (secretToken c)
      in case Execute w request of
           Inl err \<Rightarrow> (None, Some err)
         | Inr response \<Rightarrow>
             (case UnmarshalDeviceList w response of
                Inl err \<Rightarrow> (None, Some err)
              | Inr deviceResponse \<Rightarrow>
                  if Code deviceResponse \<noteq> ''0'' then
                    (Some deviceResponse,
                     Some (ErrorString (''can't get device list, error code: '' @
                             Code deviceResponse @ '', error message: '' @
                             Message deviceResponse)))
                  else (Some deviceResponse, None)))"

text \<open>
  \<^verbatim>\<open>GetDeviceInfo\<close>.  The type assertion \<^verbatim>\<open>jsonData["code"].(string)\<close> in its two-value
  form yields the empty string and \<^verbatim>\<open>false\<close> when the key is missing or holds
  something else.
\<close>

definition GetDeviceInfo :: "world \<Rightarrow> Client \<Rightarrow> string \<Rightarrow> string \<Rightarrow> error + gomap" where
  "GetDeviceInfo w c deviceSn specific =
     (let requestParams = [(''sn'', JStr deviceSn)];
          request = NewHttpRequest ''GET'' (ecoflowAPI @ getAllQuotePath) (Some requestParams)
                      (accessToken c) (secretToken c)
      in case Execute w request of
           Inl err \<Rightarrow> Inl err
         | Inr response \<Rightarrow>
             (case UnmarshalMap w response of
                Inl err \<Rightarrow> Inl err
              | Inr decoded \<Rightarrow>
                  (let jsonData = entries decoded;
                       (code, ok) = (case lookup jsonData ''code'' of
                                       Some (JStr s) \<Rightarrow> (s, True)
                                     | _ \<Rightarrow> ([], False))
                   in if \<not> ok \<or> code \<noteq> ''0'' then
                        Inl (ErrorString (''can't get parameters, error code '' @ code))
                      else if specific \<noteq> [] then
                        (case lookup jsonData specific of
                           Some (JMap tmpMap) \<Rightarrow> Inr tmpMap
                         | _ \<Rightarrow> Inl (ErrorString ''response is not valid, can't process it''))
                      else Inr jsonData)))"

text \<open>\<^verbatim>\<open>GetDeviceAllParameters\<close> has a third parameter and does not use it.\<close>

definition GetDeviceAllParameters :: "world \<Rightarrow> Client \<Rightarrow> string \<Rightarrow> string \<Rightarrow> error + gomap" where
  "GetDeviceAllParameters w c deviceSn specific = GetDeviceInfo w c deviceSn ''data''"

section \<open>Broker credential exchange (\<^verbatim>\<open>getLoginResponse\<close>, \<^verbatim>\<open>getMqttCredentials\<close>)\<close>

text \<open>
  The exchange needs, on top of the transport, base64 encoding, the JSON encoder for a
  \<^verbatim>\<open>map[string]string\<close> (entries in the order of the assignments) and the decoders into
  \<^verbatim>\<open>*MqttLoginResponse\<close> and \<^verbatim>\<open>*MqttCredentialsResponse\<close>.  Both are decoded through a
  pointer that starts nil: the JSON text \<^verbatim>\<open>null\<close> leaves it nil without an error
  (\<open>None\<close>).
\<close>

record authWorld = world +
  EncodeBase64 :: "string \<Rightarrow> string"
  MarshalStrings :: "(string \<times> string) list \<Rightarrow> error + string"
  UnmarshalLogin :: "string \<Rightarrow> error + MqttLoginResponse option"
  UnmarshalCredentials :: "string \<Rightarrow> error + MqttCredentialsResponse option"

definition ecoflowLoginUrl :: string where
  "ecoflowLoginUrl = ''https://api.ecoflow.com/auth/login''"
definition ecoflowScene :: string where "ecoflowScene = ''IOT_APP''"
definition ecoflowUserType :: string where "ecoflowUserType = ''ECOFLOW''"
definition ecoflowCertificationUrl :: string where
  "ecoflowCertificationUrl = ''https://api.ecoflow.com/iot-auth/app/certification''"

text \<open>A call returns a value, returns an error, or panics.\<close>

datatype 'a outcome = Return 'a | Fail error | Panic string

definition loginRequest :: "string \<Rightarrow> http_request" where
  "loginRequest jsonParams =
     \<lparr> Method = ''POST'', URL = ecoflowLoginUrl, ReqBody = Some jsonParams,
       Header = [(''lang'', ''en_US''), (''content-type'', ''application/json'')] \<rparr>"

definition getLoginResponse ::
  "authWorld \<Rightarrow> string \<Rightarrow> string \<Rightarrow> error + MqttLoginResponse option" where
  "getLoginResponse w email password =
     (let params = [(''email'', email), (''password'', EncodeBase64 w password),
                    (''scene'', ecoflowScene), (''userType'', ecoflowUserType)]
      in case MarshalStrings w params of
           Inl err \<Rightarrow> Inl err
         | Inr jsonParams \<Rightarrow>
             (case NewRequestError w ''POST'' ecoflowLoginUrl of
                Some err \<Rightarrow> Inl err
              | None \<Rightarrow>
                  (case Do w (loginRequest jsonParams) of
                     Inl err \<Rightarrow> Inl err
                   | Inr resp \<Rightarrow>
                       (case Body resp of
                          Inl err \<Rightarrow> Inl err
                        | Inr responseBody \<Rightarrow>
                            (case UnmarshalLogin w responseBody of
                               Inl err \<Rightarrow> Inl err
                             | Inr mqttLoginResponse \<Rightarrow> Inr mqttLoginResponse)))))"

text \<open>The second half of \<^verbatim>\<open>getMqttCredentials\<close>, from the login response on: the
  certification request carries the token and the user id of the login response.\<close>

definition certificationRequest :: "MqttLoginResponse \<Rightarrow> string \<Rightarrow> http_request" where
  "certificationRequest mqttLoginResponse jsonParams =
     \<lparr> Method = ''GET'', URL = ecoflowCertificationUrl, ReqBody = Some jsonParams,
       Header = [(''Authorization'',
                  ''Bearer '' @ Token (MqttLoginResponse.Data mqttLoginResponse)),
                 (''lang'', ''en_US'')] \<rparr>"

definition requestCertification ::
  "authWorld \<Rightarrow> MqttLoginResponse \<Rightarrow> MqttConnectionConfig outcome" where
  "requestCertification w mqttLoginResponse =
     (let userId = LoginUser.UserId (User (MqttLoginResponse.Data mqttLoginResponse));
          params = [(''userId'', userId)]
      in case MarshalStrings w params of
           Inl err \<Rightarrow> Fail err
         | Inr jsonParams \<Rightarrow>
             (case NewRequestError w ''GET'' ecoflowCertificationUrl of
                Some err \<Rightarrow> Fail err
              | None \<Rightarrow>
                  (case Do w (certificationRequest mqttLoginResponse jsonParams) of
                     Inl err \<Rightarrow> Fail err
                   | Inr resp \<Rightarrow>
                       (case Body resp of
                          Inl err \<Rightarrow> Fail err
                        | Inr responseBody \<Rightarrow>
                            (case UnmarshalCredentials w responseBody of
                               Inl err \<Rightarrow> Fail err
                             | Inr None \<Rightarrow> Panic ''nil pointer dereference''
                             | Inr (Some mqttConn) \<Rightarrow>
                                 Return ((MqttCredentialsResponse.Data mqttConn)
                                           \<lparr> MqttConnectionConfig.UserId := userId \<rparr>))))))"

definition getMqttCredentials ::
  "authWorld \<Rightarrow> string \<Rightarrow> string \<Rightarrow> MqttConnectionConfig outcome" where
  "getMqttCredentials w email password =
     (case getLoginResponse w email password of
        Inl err \<Rightarrow> Fail err
      | Inr None \<Rightarrow> Panic ''nil pointer dereference''
      | Inr (Some mqttLoginResponse) \<Rightarrow> requestCertification w mqttLoginResponse)"

section \<open>Broker messages (\<^verbatim>\<open>protobuf.go\<close>)\<close>

text \<open>
  The generated protobuf types are not part of the package sources.  The message handler
  reads three things from them: the header of a \<^verbatim>\<open>SendHeaderMsg\<close> (a pointer, nil when the
  field is absent) with its command id and its \<^verbatim>\<open>Pdata\<close> bytes, and the
  \<^verbatim>\<open>SysPowerStream\<close> elements of a \<^verbatim>\<open>PowerPack\<close>.  The heartbeat message \<open>'h\<close> and the
  power stream element \<open>'p\<close> are handed on unread, so they stay type parameters.
\<close>

record Header =
  CmdId :: int
  Pdata :: string

record SendHeaderMsg =
  Msg :: "Header option"

record 'p PowerPack =
  SysPowerStream :: "'p list"

text \<open>\<^verbatim>\<open>GetCmdId\<close> is nil-safe: on a nil header it returns 0.\<close>

definition GetCmdId :: "Header option \<Rightarrow> int" where
  "GetCmdId h = (case h of None \<Rightarrow> 0 | Some x \<Rightarrow> CmdId x)"

datatype ('h, 'p) object = InverterHeartbeat 'h | PowerStream 'p

record ('h, 'p) Entry =
  object :: "('h, 'p) object"
  serialNumber :: string

text \<open>
  What the handler calls: the JSON decoder into a \<^verbatim>\<open>map[string]interface{}\<close> (\<open>None\<close> is
  the nil map that the text \<^verbatim>\<open>null\<close> leaves), \<^verbatim>\<open>log.IsDebugLevel()\<close>, the clock, and
  \<^verbatim>\<open>proto.Unmarshal\<close> into the three message types.
\<close>

record ('h, 'p) codec =
  UnmarshalJSON :: "string \<Rightarrow> error + gomap option"
  IsDebugLevel :: bool
  Now :: int
  UnmarshalSendHeaderMsg :: "string \<Rightarrow> error + SendHeaderMsg"
  UnmarshalInverterHeartbeat :: "string \<Rightarrow> error + 'h"
  UnmarshalPowerPack :: "string \<Rightarrow> error + 'p PowerPack"

record message =
  Topic :: string
  Payload :: string
  Retained :: bool

record statMqtt =
  mqttCounter :: "64 word"
  httpCounter :: "64 word"

text \<open>
  The package state that a handler invocation touches, run on its own: the two global
  maps, and the calls made to the installed handlers, in order: \<open>callbacks\<close> for
  \<^verbatim>\<open>Callback(serialNumber, data)\<close>, \<open>handled\<close> for \<^verbatim>\<open>caller.CallHandler(entry)\<close>.
  \<open>displayed\<close> lists the byte slices passed to \<^verbatim>\<open>DisplayPayload\<close>, that is, every attempt
  to decode a binary frame.  Both handlers are taken to be installed and to return.
  \<^verbatim>\<open>mapStatMqtt\<close> holds pointers; each is stored under one key only, so the map from the
  key to the pointed-to counters describes it.  Log output is not part of the state.
\<close>

record ('h, 'p) state =
  mapStatMqtt :: "string \<rightharpoonup> statMqtt"
  mqttStatMap :: "string \<rightharpoonup> 64 word"
  callbacks :: "(string \<times> gomap) list"
  handled :: "('h, 'p) Entry list"
  displayed :: "string list"

datatype status = Done | Panicked string

text \<open>\<^verbatim>\<open>strings.Split(topic, "/")\<close>: the segments between the separators; there is always
  at least one.\<close>

fun splitAt :: "char \<Rightarrow> string \<Rightarrow> string \<Rightarrow> string list" where
  "splitAt sep cur [] = [cur]"
| "splitAt sep cur (c # cs) =
     (if c = sep then cur # splitAt sep [] cs else splitAt sep (cur @ [c]) cs)"

definition Split :: "string \<Rightarrow> char \<Rightarrow> string list" where
  "Split s sep = splitAt sep [] s"

definition getSnFromTopic :: "string \<Rightarrow> string" where
  "getSnFromTopic topic = (let topicStr = Split topic CHR ''/'' in last topicStr)"

text \<open>\<^verbatim>\<open>bytes.Index(s, sep)\<close>: the index of the first occurrence of \<open>sep\<close> in \<open>s\<close>, or
  \<open>-1\<close>.\<close>

fun Index :: "string \<Rightarrow> string \<Rightarrow> int" where
  "Index [] sep = (if sep = [] then 0 else - 1)"
| "Index (c # s) sep =
     (if prefix sep (c # s) then 0
      else (let i = Index s sep in if i = - 1 then - 1 else i + 1))"

text \<open>The slice expression \<^verbatim>\<open>payload[lo:hi]\<close>, for \<open>0 \<le> lo \<le> hi \<le> len(payload)\<close>.\<close>

definition slice :: "string \<Rightarrow> int \<Rightarrow> int \<Rightarrow> string" where
  "slice payload lo hi = take (nat (hi - lo)) (drop (nat lo) payload)"

text \<open>
  \<^verbatim>\<open>DisplayPayload\<close> returns its boolean and the entries it passes to
  \<^verbatim>\<open>caller.CallHandler\<close>, in order.  The switch is on \<^verbatim>\<open>platform.Msg.GetCmdId()\<close>; in the
  cases 1 and 32 the header is not nil, since the command id of a nil header is 0.
\<close>

definition DisplayPayload ::
  "('h, 'p) codec \<Rightarrow> string \<Rightarrow> string \<Rightarrow> bool \<times> ('h, 'p) Entry list" where
  "DisplayPayload cd sn payload =
     (case UnmarshalSendHeaderMsg cd payload of
        Inl err \<Rightarrow> (True, [])
      | Inr platform \<Rightarrow>
          (case Msg platform of
             None \<Rightarrow> (False, [])
           | Some hdr \<Rightarrow>
               if GetCmdId (Some hdr) = 1 then
                 (case UnmarshalInverterHeartbeat cd (Pdata hdr) of
                    Inl err \<Rightarrow> (True, [])
                  | Inr ih \<Rightarrow> (True, [\<lparr> object = InverterHeartbeat ih, serialNumber = sn \<rparr>]))
               else if GetCmdId (Some hdr) = 32 then
                 (case UnmarshalPowerPack cd (Pdata hdr) of
                    Inl err \<Rightarrow> (True, [])
                  | Inr pp \<Rightarrow>
                      (True, map (\<lambda>p. \<lparr> object = PowerStream p, serialNumber = sn \<rparr>)
                               (SysPowerStream pp)))
               else (False, [])))"

text \<open>\<^verbatim>\<open>GetStatEntry\<close>: the entry of the serial number, created with zero counters when there
  is none.\<close>

definition GetStatEntry :: "('h, 'p) state \<Rightarrow> string \<Rightarrow> ('h, 'p) state \<times> statMqtt" where
  "GetStatEntry s serialNumber' =
     (case mapStatMqtt s serialNumber' of
        Some st \<Rightarrow> (s, st)
      | None \<Rightarrow>
          (let stat = \<lparr> mqttCounter = 0, httpCounter = 0 \<rparr>
           in (s \<lparr> mapStatMqtt := (mapStatMqtt s)(serialNumber' \<mapsto> stat) \<rparr>, stat)))"

text \<open>The type assertions of the debug output: they panic unless \<^verbatim>\<open>cmdId\<close>, \<^verbatim>\<open>cmdFunc\<close> and
  \<^verbatim>\<open>id\<close> hold a \<^verbatim>\<open>float64\<close> and \<^verbatim>\<open>version\<close> holds a string.\<close>

definition isFloat64 :: "jvalue option \<Rightarrow> bool" where
  "isFloat64 v = (case v of Some (JFloat f) \<Rightarrow> True | _ \<Rightarrow> False)"

definition isString :: "jvalue option \<Rightarrow> bool" where
  "isString v = (case v of Some (JStr s) \<Rightarrow> True | _ \<Rightarrow> False)"

definition debugAssertionsHold :: "gomap \<Rightarrow> bool" where
  "debugAssertionsHold data =
     (isFloat64 (lookup data ''cmdId'') \<and> isFloat64 (lookup data ''cmdFunc'')
      \<and> isString (lookup data ''version'') \<and> isFloat64 (lookup data ''id''))"

text \<open>
  The branch of \<^verbatim>\<open>MessageHandler\<close> taken when \<^verbatim>\<open>json.Unmarshal\<close> returns no error.
  \<^verbatim>\<open>data["params"].(map[string]interface{})\<close> is the one-value form of the type assertion:
  it panics when the value is anything but a map.  An assignment into a nil map panics.
\<close>

definition handleJSON ::
  "('h, 'p) codec \<Rightarrow> ('h, 'p) state \<Rightarrow> string \<Rightarrow> gomap option \<Rightarrow> ('h, 'p) state \<times> status" where
  "handleJSON cd s serialNumber' decoded =
     (if IsDebugLevel cd \<and> \<not> debugAssertionsHold (entries decoded) then
        (s, Panicked ''interface conversion'')
      else
        (case (case lookup (entries decoded) ''params'' of
                 None \<Rightarrow> Inr decoded
               | Some (JMap params) \<Rightarrow> Inr (Some params)
               | Some other \<Rightarrow> Inl ''interface conversion'') of
           Inl reason \<Rightarrow> (s, Panicked reason)
         | Inr None \<Rightarrow> (s, Panicked ''assignment to entry in nil map'')
         | Inr (Some data) \<Rightarrow>
             (let data1 = (if lookup data ''serial_number'' = None
                           then assign data ''serial_number'' (JStr serialNumber') else data);
                  data2 = (if lookup data1 ''timestamp'' = None
                           then assign data1 ''timestamp'' (JTime (Now cd)) else data1)
              in (s \<lparr> callbacks := callbacks s @ [(serialNumber', data2)] \<rparr>, Done))))"

text \<open>The rest of \<^verbatim>\<open>MessageHandler\<close>: the payload is cut after the first occurrence of the
  serial number, and what follows, if anything, after the second.\<close>

definition display ::
  "('h, 'p) codec \<Rightarrow> ('h, 'p) state \<Rightarrow> string \<Rightarrow> string \<Rightarrow> ('h, 'p) state" where
  "display cd s serialNumber' frame =
     s \<lparr> handled := handled s @ snd (DisplayPayload cd serialNumber' frame),
         displayed := displayed s @ [frame] \<rparr>"

definition handleBinary ::
  "('h, 'p) codec \<Rightarrow> ('h, 'p) state \<Rightarrow> string \<Rightarrow> string \<Rightarrow> ('h, 'p) state \<times> status" where
  "handleBinary cd s serialNumber' payload =
     (let start0 = 0;
          index = Index payload serialNumber';
          end1 = (if index \<noteq> - 1 then index + int (length serialNumber')
                  else int (length payload));
          s1 = display cd s serialNumber' (slice payload start0 end1);
          start1 = end1
      in if int (length payload) > index + int (length serialNumber') then
           (let index2 = Index (slice payload end1 (int (length payload))) serialNumber';
                end2 = (if index2 \<noteq> - 1 then end1 + index2 + int (length serialNumber')
                        else int (length payload))
            in (display cd s1 serialNumber' (slice payload start1 end2), Done))
         else (s1, Done))"

definition MessageHandler ::
  "('h, 'p) codec \<Rightarrow> ('h, 'p) state \<Rightarrow> message \<Rightarrow> ('h, 'p) state \<times> status" where
  "MessageHandler cd s msg =
     (let serialNumber' = getSnFromTopic (Topic msg);
          (s1, stat) = GetStatEntry s serialNumber';
          s2 = s1 \<lparr> mapStatMqtt := (mapStatMqtt s1)
                      (serialNumber' \<mapsto> stat \<lparr> mqttCounter := mqttCounter stat + 1 \<rparr>) \<rparr>;
          s3 = s2 \<lparr> mqttStatMap := (mqttStatMap s2)
                      (Topic msg \<mapsto> (case mqttStatMap s2 (Topic msg) of
                                         Some e \<Rightarrow> e + 1 | None \<Rightarrow> 1)) \<rparr>;
          payload = Payload msg
      in case UnmarshalJSON cd payload of
           Inr decoded \<Rightarrow> handleJSON cd s3 serialNumber' decoded
         | Inl err \<Rightarrow> handleBinary cd s3 serialNumber' payload)"

section \<open>Concurrent invocations of the counter update\<close>

text \<open>
  The first statements of \<^verbatim>\<open>MessageHandler\<close>, with \<^verbatim>\<open>GetStatEntry\<close> inlined, and its
  deferred \<^verbatim>\<open>Unlock\<close>, as the steps of one goroutine:
  \<^verbatim>\<open>s, ok := mapStatMqtt[serialNumber]\<close> (\<open>AtLookup\<close>);
  \<^verbatim>\<open>stat := &statMqtt{}; mapStatMqtt[serialNumber] = stat\<close> (\<open>AtStore\<close>, after a miss);
  \<^verbatim>\<open>stat.mu.Lock()\<close> (\<open>AtLock\<close>, which waits while the mutex is held);
  \<^verbatim>\<open>stat.mqttCounter++\<close> (\<open>AtIncrement\<close>); \<^verbatim>\<open>stat.mu.Unlock()\<close> (\<open>AtUnlock\<close>).
  The map is a plain Go map and \<^verbatim>\<open>GetStatEntry\<close> takes no lock, so other goroutines can
  run between its lookup and its store.  Here \<^verbatim>\<open>mapStatMqtt\<close> holds pointers: indices
  into the list of allocated \<^verbatim>\<open>statMqtt\<close> objects, each with its mutex.
\<close>

datatype pc = AtLookup | AtStore | AtLock nat | AtIncrement nat | AtUnlock nat | Returned

record goroutines =
  pointers :: "string \<rightharpoonup> nat"
  objects :: "statMqtt list"
  locked :: "bool list"
  pcs :: "pc list"

text \<open>One step of goroutine \<open>t\<close>; \<open>None\<close> when it cannot move (it waits for the mutex, or
  has returned).\<close>

definition stepGoroutine :: "string \<Rightarrow> nat \<Rightarrow> goroutines \<Rightarrow> goroutines option" where
  "stepGoroutine sn t c =
     (if length (pcs c) \<le> t then None
      else case pcs c ! t of
        AtLookup \<Rightarrow>
          Some (c \<lparr> pcs := (pcs c)[t := (case pointers c sn of
                                            Some a \<Rightarrow> AtLock a | None \<Rightarrow> AtStore)] \<rparr>)
      | AtStore \<Rightarrow>
          (let a = length (objects c)
           in Some (c \<lparr> pointers := (pointers c)(sn \<mapsto> a),
                       objects := objects c @ [\<lparr> mqttCounter = 0, httpCounter = 0 \<rparr>],
                       locked := locked c @ [False],
                       pcs := (pcs c)[t := AtLock a] \<rparr>))
      | AtLock a \<Rightarrow>
          if locked c ! a then None
          else Some (c \<lparr> locked := (locked c)[a := True], pcs := (pcs c)[t := AtIncrement a] \<rparr>)
      | AtIncrement a \<Rightarrow>
          Some (c \<lparr> objects := (objects c)
                       [a := (objects c ! a) \<lparr> mqttCounter := mqttCounter (objects c ! a) + 1 \<rparr>],
                    pcs := (pcs c)[t := AtUnlock a] \<rparr>)
      | AtUnlock a \<Rightarrow>
          Some (c \<lparr> locked := (locked c)[a := False], pcs := (pcs c)[t := Returned] \<rparr>)
      | Returned \<Rightarrow> None)"

text \<open>A schedule names the goroutine that moves next.\<close>

fun runSchedule :: "string \<Rightarrow> nat list \<Rightarrow> goroutines \<Rightarrow> goroutines option" where
  "runSchedule sn [] c = Some c"
| "runSchedule sn (t # ts) c =
     (case stepGoroutine sn t c of None \<Rightarrow> None | Some c' \<Rightarrow> runSchedule sn ts c')"

text \<open>\<open>n\<close> invocations about to start, before any message was recorded.\<close>

definition invocations :: "nat \<Rightarrow> goroutines" where
  "invocations n = \<lparr> pointers = Map.empty, objects = [], locked = [], pcs = replicate n AtLookup \<rparr>"

text \<open>The broker counter that \<^verbatim>\<open>mapStatMqtt\<close> holds for a serial number.\<close>

definition brokerCounter :: "string \<Rightarrow> goroutines \<Rightarrow> 64 word option" where
  "brokerCounter sn c =
     (case pointers c sn of None \<Rightarrow> None | Some a \<Rightarrow> Some (mqttCounter (objects c ! a)))"

chapter \<open>Example inputs\<close>

section \<open>The signed API\<close>

text \<open>A world whose transport answers every request with status 200 and the given body,
  and whose JSON decoders know the response bodies used in the examples below.\<close>

definition fixtureWorld :: "string \<Rightarrow> world" where
  \<open>fixtureWorld body =
     \<lparr> FormatFloat = (\<lambda>_. ''0''),
       hmacSHA256 = (\<lambda>k m. [CHR 0x0F, CHR 0xA0]),
       Intn = (\<lambda>_. 23456),
       UnixNano = 1700000000000000000,
       Marshal = (\<lambda>_. ''{}''),
       NewRequestError = (\<lambda>_ _. None),
       Do = (\<lambda>req. Inr \<lparr> StatusCode = 200, Status = ''200 OK'', Body = Inr body \<rparr>),
       UnmarshalDeviceList = (\<lambda>b.
         if b = ''{"code":"0","message":"Success","data":[{"sn":"ABC","online":1}]}'' then
           Inr \<lparr> Code = ''0'', Message = ''Success'', Devices = [\<lparr> SN = ''ABC'', Online = 1 \<rparr>],
                 EagleEyeTraceID = [], Tid = [] \<rparr>
         else if b = ''{"code":"1","message":"bad key"}'' then
           Inr \<lparr> Code = ''1'', Message = ''bad key'', Devices = [],
                 EagleEyeTraceID = [], Tid = [] \<rparr>
         else Inl (External ''unexpected end of JSON input'')),
       UnmarshalMap = (\<lambda>b.
         if b = ''{"code":"0","message":"Success","data":{"pd.standbyMin":"0"}}'' then
           Inr (Some [(''code'', JStr ''0''), (''message'', JStr ''Success''),
                      (''data'', JMap [(''pd.standbyMin'', JStr ''0'')])])
         else Inl (External ''unexpected end of JSON input'')) \<rparr>\<close>

definition fixtureRequest :: HttpRequest where
  "fixtureRequest =
     NewHttpRequest ''PUT'' ''https://api.ecoflow.com/iot-open/sign/device/quota''
       (Some [(''permanentWatts'', JInt 2000)]) ''AK'' ''SK''"

definition fixtureClient :: Client where
  "fixtureClient = \<lparr> accessToken = ''AK'', secretToken = ''SK'' \<rparr>"

definition quotaBody :: string where
  \<open>quotaBody = ''{"code":"0","message":"Success","data":{"pd.standbyMin":"0"}}''\<close>

section \<open>The credential exchange\<close>

text \<open>A world for the exchange: the login endpoint answers with a body that decodes to a
  rejected login (code \<open>"1"\<close>, no token, no user), every other URL with a body that
  decodes to a broker configuration; both with status 200.  The bodies and the base64
  encoding are stand-ins.\<close>

definition rejectedLogin :: MqttLoginResponse where
  "rejectedLogin =
     \<lparr> MqttLoginResponse.Code = ''1'', MqttLoginResponse.Message = ''wrong password'',
       MqttLoginResponse.Data =
         \<lparr> User = \<lparr> LoginUser.UserId = [], Email = [], Name = [], Icon = [], State = 0,
                    Regtype = [], CreateTime = [], Destroyed = [], RegisterLang = [],
                    Source = [], Administrator = False, Appid = 0, CountryCode = [] \<rparr>,
           Token = [] \<rparr> \<rparr>"

definition brokerConfig :: MqttConnectionConfig where
  "brokerConfig =
     \<lparr> CertificateAccount = ''app-account'', CertificatePassword = ''secret'',
       Url = ''mqtt.ecoflow.com'', Port = ''8883'', Protocol = ''mqtts'',
       MqttConnectionConfig.UserId = [] \<rparr>"

definition authFixture :: authWorld where
  "authFixture =
     world.extend
       ((fixtureWorld ''certification'')
          \<lparr> Do := (\<lambda>req. Inr \<lparr> StatusCode = 200, Status = ''200 OK'',
                                Body = Inr (if URL req = ecoflowLoginUrl then ''login''
                                            else ''certification'') \<rparr>) \<rparr>)
       (authWorld.fields
          (\<lambda>s. s)
          (\<lambda>params. Inr ''{}'')
          (\<lambda>body. if body = ''login'' then Inr (Some rejectedLogin)
                   else Inl (External ''unexpected end of JSON input''))
          (\<lambda>body. if body = ''certification'' then
                     Inr (Some \<lparr> MqttCredentialsResponse.Code = ''0'',
                                 MqttCredentialsResponse.Message = ''Success'',
                                 MqttCredentialsResponse.Data = brokerConfig \<rparr>)
                   else Inl (External ''unexpected end of JSON input'')))"

section \<open>Broker messages\<close>

text \<open>A codec that knows the payloads of the examples, a state before the first message,
  and a message on the topic of the device \<open>DEV1\<close>.  The bit patterns are those of the
  \<^verbatim>\<open>float64\<close> values 1 (\<open>0x3FF0000000000000\<close>), 2 (\<open>0x4000000000000000\<close>) and 5
  (\<open>0x4014000000000000\<close>).  The binary frames are stand-ins for protobuf bytes; each ends
  with the serial number, as the handler expects.\<close>

definition fixtureCodec :: "(string, string) codec" where
  \<open>fixtureCodec =
     \<lparr> UnmarshalJSON = (\<lambda>b.
         if b = ''{"cmdId":1,"cmdFunc":2,"params":{"x":1}}'' then
           Inr (Some [(''cmdId'', JFloat 0x3FF0000000000000),
                      (''cmdFunc'', JFloat 0x4000000000000000),
                      (''params'', JMap [(''x'', JFloat 0x3FF0000000000000)])])
         else if b = ''{"params":5}'' then
           Inr (Some [(''params'', JFloat 0x4014000000000000)])
         else Inl (External ''invalid character'')),
       IsDebugLevel = False,
       Now = 1700000000000000000,
       UnmarshalSendHeaderMsg = (\<lambda>b.
         if b = ''<heartbeat>DEV1'' then Inr \<lparr> Msg = Some \<lparr> CmdId = 1, Pdata = ''hb'' \<rparr> \<rparr>
         else if b = ''<powerpack>DEV1'' then Inr \<lparr> Msg = Some \<lparr> CmdId = 32, Pdata = ''pp'' \<rparr> \<rparr>
         else if b = ''<other>DEV1'' then Inr \<lparr> Msg = Some \<lparr> CmdId = 99, Pdata = [] \<rparr> \<rparr>
         else Inl (External ''proto: cannot parse invalid wire-format data'')),
       UnmarshalInverterHeartbeat = (\<lambda>b.
         if b = ''hb'' then Inr ''heartbeat''
         else Inl (External ''proto: cannot parse invalid wire-format data'')),
       UnmarshalPowerPack = (\<lambda>b.
         if b = ''pp'' then Inr \<lparr> SysPowerStream = [''stream 1'', ''stream 2''] \<rparr>
         else Inl (External ''proto: cannot parse invalid wire-format data'')) \<rparr>\<close>

definition emptyState :: "(string, string) state" where
  "emptyState = \<lparr> mapStatMqtt = Map.empty, mqttStatMap = Map.empty,
                  callbacks = [], handled = [], displayed = [] \<rparr>"

definition fixtureMessage :: "string \<Rightarrow> message" where
  "fixtureMessage payload =
     \<lparr> Topic = ''/app/device/property/DEV1'', Payload = payload, Retained = False \<rparr>"

chapter \<open>Properties\<close>

section \<open>Determinism of the canonical query string\<close>

text \<open>The flattened pairs of two values that differ in iteration order only are the same
  multiset.\<close>

lemma flatten_same:
  shows "sameValue v v' \<Longrightarrow> mset (processValue ff p v) = mset (processValue ff p v')"
    and "sameMap m m' \<Longrightarrow> mset (processMapEntries ff p m) = mset (processMapEntries ff p m')
          \<and> mset (collectTopLevel ff m) = mset (collectTopLevel ff m')"
    and "sameItems xs ys \<Longrightarrow> mset (processArrayItems ff p i xs) = mset (processArrayItems ff p i ys)"
proof (induction arbitrary: p and p and p i rule: sameValue_sameMap_sameItems.inducts)
  case (sm_swap m m' a b)
  then show ?case by (cases a; cases b) simp
qed auto

lemma sameItems_refl_aux: "(\<And>x. x \<in> set xs \<Longrightarrow> sameValue x x) \<Longrightarrow> sameItems xs xs"
  by (induction xs) (auto intro: sameValue_sameMap_sameItems.intros)

lemma sameMap_refl_aux: "\<forall>e\<in>set m. sameValue (snd e) (snd e) \<Longrightarrow> sameMap m m"
proof (induction m)
  case Nil
  show ?case by (rule sm_empty)
next
  case (Cons e m)
  obtain k v where e: "e = (k, v)" by (cases e)
  have "sameValue v v" using Cons.prems e by simp
  moreover have "sameMap m m" using Cons by simp
  ultimately show ?case unfolding e by (rule sm_entry)
qed

lemma sameValue_refl: "sameValue v v"
proof (induction v)
  case (JArr xs)
  then show ?case by (intro sv_arr sameItems_refl_aux) 
next
  case (JMap m)
  have "sameMap m m"
  proof (rule sameMap_refl_aux, rule ballI)
    fix e assume em: "e \<in> set m"
    obtain k v where e: "e = (k, v)" by (cases e)
    show "sameValue (snd e) (snd e)" using JMap [OF em, of v] e by simp
  qed
  then show ?case by (rule sv_map)
qed (auto intro: sameValue_sameMap_sameItems.intros)

lemma sameMap_refl: "sameMap m m"
  by (rule sameMap_refl_aux) (simp add: sameValue_refl)

lemma sameMap_cons: "sameMap m m' \<Longrightarrow> sameMap (e # m) (e # m')"
  by (cases e) (auto intro: sm_entry sameValue_refl)

lemma sameMap_move: "sameMap (e # ys @ zs) (ys @ e # zs)"
proof (induction ys)
  case Nil
  show ?case by (simp add: sameMap_refl)
next
  case (Cons y ys)
  have "sameMap (e # y # ys @ zs) (y # e # ys @ zs)"
    by (rule sm_swap) (rule sameMap_refl)
  moreover have "sameMap (y # e # ys @ zs) (y # ys @ e # zs)"
    using Cons by (rule sameMap_cons)
  ultimately show ?case by (auto intro: sm_trans)
qed

lemma sameMap_permutation: "mset m = mset m' \<Longrightarrow> sameMap m m'"
proof (induction m arbitrary: m')
  case Nil
  then show ?case by (simp add: sm_empty)
next
  case (Cons e m)
  then have "e \<in> set m'" by (metis list.set_intros(1) set_mset_mset)
  then obtain ys zs where m': "m' = ys @ e # zs" by (auto simp: in_set_conv_decomp)
  with Cons.prems have "mset m = mset (ys @ zs)" by simp
  then have "sameMap m (ys @ zs)" by (rule Cons.IH)
  then have "sameMap (e # m) (e # ys @ zs)" by (rule sameMap_cons)
  then show ?case unfolding m' using sameMap_move by (rule sm_trans)
qed

text \<open>
  Claim C1.  Building the canonical query string is deterministic: for two parameter
  mappings that are equal up to the iteration order of the mappings in them (at any
  nesting depth), \<open>generateQueryParams\<close> returns the same bytes.  The result is the
  flattened \<open>key=value\<close> pairs of the input, in non-decreasing byte order, joined
  with \<open>&\<close>.
\<close>

theorem canonical_query_deterministic:
  assumes "sameMap d d'"
  shows "\<exists>pairs. sorted pairs \<and> mset pairs = mset (collectTopLevel ff d)
           \<and> generateQueryParams ff d = Join pairs ''&''
           \<and> generateQueryParams ff d' = Join pairs ''&''"
proof -
  have "mset (collectTopLevel ff d) = mset (collectTopLevel ff d')"
    using flatten_same(2) [OF assms] by simp
  then have "sort (collectTopLevel ff d') = sort (collectTopLevel ff d)"
    by (intro properties_for_sort) simp_all
  then show ?thesis
    unfolding generateQueryParams_def
    by (intro exI [of _ "sort (collectTopLevel ff d)"]) simp
qed

theorem canonical_query_deterministic_witness:
  "sameMap [(''sn'', JStr ''DEV1''), (''params'', JMap [(''permanentWatts'', JInt 2000), (''on'', JBool True)])]
           [(''params'', JMap [(''on'', JBool True), (''permanentWatts'', JInt 2000)]), (''sn'', JStr ''DEV1'')]
   \<and> generateQueryParams (\<lambda>_. [])
        [(''sn'', JStr ''DEV1''), (''params'', JMap [(''permanentWatts'', JInt 2000), (''on'', JBool True)])]
      = ''params.on=true&params.permanentWatts=2000&sn=DEV1''
   \<and> generateQueryParams (\<lambda>_. [])
        [(''params'', JMap [(''on'', JBool True), (''permanentWatts'', JInt 2000)]), (''sn'', JStr ''DEV1'')]
      = ''params.on=true&params.permanentWatts=2000&sn=DEV1''"
proof -
  let ?inner = "[(''permanentWatts'', JInt 2000), (''on'', JBool True)]"
  let ?inner' = "[(''on'', JBool True), (''permanentWatts'', JInt 2000)]"
  let ?d = "[(''sn'', JStr ''DEV1''), (''params'', JMap ?inner)]"
  let ?d' = "[(''params'', JMap ?inner'), (''sn'', JStr ''DEV1'')]"
  have inner: "sameMap ?inner ?inner'"
    by (rule sm_swap) (rule sm_empty)
  have "sameMap ?d [(''sn'', JStr ''DEV1''), (''params'', JMap ?inner')]"
    by (intro sm_entry sv_str sv_map inner sm_empty)
  moreover have "sameMap [(''sn'', JStr ''DEV1''), (''params'', JMap ?inner')] ?d'"
    by (rule sm_swap) (rule sm_empty)
  ultimately have h: "sameMap ?d ?d'" by (rule sm_trans)
  have a: "generateQueryParams (\<lambda>_. []) ?d = ''params.on=true&params.permanentWatts=2000&sn=DEV1''"
    by (simp add: generateQueryParams_def Itoa_def decimal.simps FormatBool_def)
  have b: "generateQueryParams (\<lambda>_. []) ?d' = ''params.on=true&params.permanentWatts=2000&sn=DEV1''"
    by (simp add: generateQueryParams_def Itoa_def decimal.simps FormatBool_def)
  show ?thesis
    using canonical_query_deterministic [OF h, of "\<lambda>_. []"] h a b by simp
qed

section \<open>The signature\<close>

lemma hextable_nth: "i < 16 \<Longrightarrow> hextable ! i \<in> set ''0123456789abcdef''"
proof -
  assume "i < 16"
  then have "i < length hextable" by (simp add: hextable_def)
  then have "hextable ! i \<in> set hextable" by (rule nth_mem)
  then show ?thesis by (simp only: hextable_def)
qed

lemma EncodeToString_lowercase: "set (EncodeToString src) \<subseteq> set ''0123456789abcdef''"
proof -
  have "hextable ! (of_char v div 16) \<in> set ''0123456789abcdef''" for v :: char
  proof (rule hextable_nth)
    have "(of_char v :: nat) < 16 * 16" by simp
    then show "(of_char v :: nat) div 16 < 16" by (rule less_mult_imp_div_less)
  qed
  moreover have "hextable ! (of_char v mod 16) \<in> set ''0123456789abcdef''" for v :: char
    by (rule hextable_nth) simp
  ultimately show ?thesis
    unfolding EncodeToString_def by (induction src) auto
qed

lemma EncodeToString_length: "length (EncodeToString src) = 2 * length src"
  unfolding EncodeToString_def by (induction src) auto

lemma getKeyValueString_eq:
  "getKeyValueString r q n t =
     (if q = [] then ''accessKey='' @ HttpRequest.accessKey r @ ''&nonce='' @ n @ ''&timestamp='' @ t
      else q @ ''&accessKey='' @ HttpRequest.accessKey r @ ''&nonce='' @ n @ ''&timestamp='' @ t)"
  by (simp add: getKeyValueString_def Let_def accessKeyHeader_def nonceHeader_def timestampHeader_def)
text \<open>
  Claim C2.  For the sign parameters generated for a request, the string that is signed is
  \<open>accessKey=<accessKey>&nonce=<nonce>&timestamp=<timestamp>\<close>, preceded by the
  canonical query string and \<open>&\<close> when that string is not empty; the signature is
  the lowercase hexadecimal encoding of the HMAC-SHA256 digest of that string under the
  secret key.  So recomputing \<open>encryptHmacSHA256\<close> from the emitted query string, nonce
  and timestamp gives the emitted signature, and the four signing headers carry exactly
  these values.
\<close>

theorem signature_recomputable:
  "let sp = generateSignParameters w r;
       triple = ''accessKey='' @ HttpRequest.accessKey r @ ''&nonce='' @ nonce sp
                  @ ''&timestamp='' @ timestamp sp;
       base = (if queryParams sp = [] then triple else queryParams sp @ ''&'' @ triple)
   in queryParams sp = generateQueryParams (FormatFloat w) (entries (requestParameters r))
      \<and> getKeyValueString r (queryParams sp) (nonce sp) (timestamp sp) = base
      \<and> sign sp = EncodeToString (hmacSHA256 w (secretKey r) base)
      \<and> sign sp = encryptHmacSHA256 w
                     (getKeyValueString r (queryParams sp) (nonce sp) (timestamp sp)) (secretKey r)
      \<and> length (sign sp) = 2 * length (hmacSHA256 w (secretKey r) base)
      \<and> set (sign sp) \<subseteq> set ''0123456789abcdef''
      \<and> signingHeaders r sp =
           [(''accessKey'', HttpRequest.accessKey r), (''nonce'', nonce sp),
            (''timestamp'', timestamp sp), (''sign'', sign sp)]"
proof -
  let ?sp = "generateSignParameters w r"
  let ?triple = "''accessKey='' @ HttpRequest.accessKey r @ ''&nonce='' @ nonce ?sp
                  @ ''&timestamp='' @ timestamp ?sp"
  let ?base = "if queryParams ?sp = [] then ?triple else queryParams ?sp @ ''&'' @ ?triple"
  have q: "queryParams ?sp = generateQueryParams (FormatFloat w) (entries (requestParameters r))"
    by (simp add: generateSignParameters_def Let_def)
  have kv: "getKeyValueString r (queryParams ?sp) (nonce ?sp) (timestamp ?sp) = ?base"
    by (simp add: getKeyValueString_eq)
  have s: "sign ?sp = encryptHmacSHA256 w
                     (getKeyValueString r (queryParams ?sp) (nonce ?sp) (timestamp ?sp)) (secretKey r)"
    by (simp add: generateSignParameters_def Let_def generateSign_def)
  have s': "sign ?sp = EncodeToString (hmacSHA256 w (secretKey r) ?base)"
    by (simp only: s kv encryptHmacSHA256_def)
  have len: "length (sign ?sp) = 2 * length (hmacSHA256 w (secretKey r) ?base)"
    by (simp only: s' EncodeToString_length)
  have hex: "set (sign ?sp) \<subseteq> set ''0123456789abcdef''"
    by (simp only: s' EncodeToString_lowercase)
  have hd: "signingHeaders r ?sp =
           [(''accessKey'', HttpRequest.accessKey r), (''nonce'', nonce ?sp),
            (''timestamp'', timestamp ?sp), (''sign'', sign ?sp)]"
    by (simp add: signingHeaders_def accessKeyHeader_def nonceHeader_def timestampHeader_def signHeader_def)
  show ?thesis
    unfolding Let_def using q kv s s' len hex hd by (intro conjI)
qed

lemmas signing_defs = generateSignParameters_def generateNonce_def generateTimestamp_def
  generateQueryParams_def generateSign_def encryptHmacSHA256_def EncodeToString_def hextable_def
  getKeyValueString_eq entries_def Itoa_def decimal.simps NewHttpRequest_def Let_def

theorem signature_recomputable_witness:
  "let sp = generateSignParameters (fixtureWorld []) fixtureRequest
   in queryParams sp = ''permanentWatts=2000'' \<and> nonce sp = ''123456''
      \<and> timestamp sp = ''1700000000000000000''
      \<and> getKeyValueString fixtureRequest (queryParams sp) (nonce sp) (timestamp sp)
          = ''permanentWatts=2000&accessKey=AK&nonce=123456&timestamp=1700000000000000000''
      \<and> sign sp = ''0fa0''"
  using signature_recomputable [of "fixtureWorld []" fixtureRequest]
  by (simp add: signing_defs fixtureWorld_def fixtureRequest_def)

section \<open>Response envelopes\<close>

lemma Execute_ok:
  "Execute (fixtureWorld body) (NewHttpRequest ''GET'' u p a k) = Inr body"
  by (simp add: Execute_def prepareRequest_def NewHttpRequest_def Let_def fixtureWorld_def)
text \<open>
  Claim C7.  When the transport delivers a body and it decodes to a device-list response:
  with code \<open>"0"\<close>, \<open>GetDeviceList\<close> returns the decoded response (whose \<open>Devices\<close> are
  the entries of \<open>data\<close>, each a serial number and an online flag) and no error; with
  any other code it returns an error whose text contains the response's message
  verbatim.
\<close>

theorem device_list_envelope:
  assumes "Execute w (NewHttpRequest ''GET'' (ecoflowAPI @ deviceListPath) None
                        (accessToken c) (secretToken c)) = Inr body"
      and "UnmarshalDeviceList w body = Inr resp"
  shows "(Code resp = ''0'' \<longrightarrow> GetDeviceList w c = (Some resp, None))
       \<and> (Code resp \<noteq> ''0'' \<longrightarrow>
            (\<exists>before after. GetDeviceList w c =
               (Some resp, Some (ErrorString (before @ Message resp @ after)))))"
proof (intro conjI impI)
  assume "Code resp = ''0''"
  then show "GetDeviceList w c = (Some resp, None)"
    using assms by (simp add: GetDeviceList_def Let_def)
next
  assume "Code resp \<noteq> ''0''"
  then have "GetDeviceList w c =
      (Some resp, Some (ErrorString ((''can't get device list, error code: '' @ Code resp @
                             '', error message: '') @ Message resp @ [])))"
    using assms by (simp add: GetDeviceList_def Let_def)
  then show "\<exists>before after. GetDeviceList w c =
               (Some resp, Some (ErrorString (before @ Message resp @ after)))"
    by blast
qed

theorem device_list_envelope_witness:
  \<open>GetDeviceList (fixtureWorld ''{"code":"0","message":"Success","data":[{"sn":"ABC","online":1}]}'')
       fixtureClient
     = (Some \<lparr> Code = ''0'', Message = ''Success'', Devices = [\<lparr> SN = ''ABC'', Online = 1 \<rparr>],
                EagleEyeTraceID = [], Tid = [] \<rparr>, None)
   \<and> (\<exists>before after.
         GetDeviceList (fixtureWorld ''{"code":"1","message":"bad key"}'') fixtureClient
         = (Some \<lparr> Code = ''1'', Message = ''bad key'', Devices = [],
                    EagleEyeTraceID = [], Tid = [] \<rparr>,
            Some (ErrorString (before @ ''bad key'' @ after))))\<close>
proof -
  let ?ok = \<open>''{"code":"0","message":"Success","data":[{"sn":"ABC","online":1}]}''\<close>
  let ?bad = \<open>''{"code":"1","message":"bad key"}''\<close>
  have e: "Execute (fixtureWorld b) (NewHttpRequest ''GET'' (ecoflowAPI @ deviceListPath) None
             (accessToken fixtureClient) (secretToken fixtureClient)) = Inr b" for b
    by (rule Execute_ok)
  have u1: "UnmarshalDeviceList (fixtureWorld ?ok) ?ok =
        Inr \<lparr> Code = ''0'', Message = ''Success'', Devices = [\<lparr> SN = ''ABC'', Online = 1 \<rparr>],
                EagleEyeTraceID = [], Tid = [] \<rparr>"
    by (simp add: fixtureWorld_def)
  have u2: "UnmarshalDeviceList (fixtureWorld ?bad) ?bad =
        Inr \<lparr> Code = ''1'', Message = ''bad key'', Devices = [],
                    EagleEyeTraceID = [], Tid = [] \<rparr>"
    by (simp add: fixtureWorld_def)
  show ?thesis
    using device_list_envelope [OF e u1] device_list_envelope [OF e u2] by simp
qed

lemma GetDeviceInfo_decoded:
  assumes "Execute w (NewHttpRequest ''GET'' (ecoflowAPI @ getAllQuotePath)
                        (Some [(''sn'', JStr serial)]) (accessToken c) (secretToken c)) = Inr body"
      and "UnmarshalMap w body = Inr (Some envelope)"
      and "lookup envelope ''code'' = Some (JStr ''0'')"
  shows "GetDeviceInfo w c serial selector =
           (if selector = [] then Inr envelope
            else case lookup envelope selector of
                   Some (JMap tmpMap) \<Rightarrow> Inr tmpMap
                 | _ \<Rightarrow> Inl (ErrorString ''response is not valid, can't process it''))"
  using assms by (simp add: GetDeviceInfo_def Let_def entries_def)
text \<open>
  Claim C8.  When the transport delivers a body that decodes to an envelope whose \<open>code\<close>
  is the string \<open>"0"\<close>: with an empty selector \<open>GetDeviceInfo\<close> returns the whole
  envelope; with a non-empty selector it returns the mapping stored under that top-level
  key, and fails with the invalid-response error when the key is absent or holds
  something that is not a mapping.
\<close>

theorem device_parameters_selector:
  assumes "Execute w (NewHttpRequest ''GET'' (ecoflowAPI @ getAllQuotePath)
                        (Some [(''sn'', JStr serial)]) (accessToken c) (secretToken c)) = Inr body"
      and "UnmarshalMap w body = Inr (Some envelope)"
      and "lookup envelope ''code'' = Some (JStr ''0'')"
  shows "(selector = [] \<longrightarrow> GetDeviceInfo w c serial selector = Inr envelope)
       \<and> (selector \<noteq> [] \<longrightarrow>
            (\<forall>m. lookup envelope selector = Some (JMap m) \<longrightarrow>
                   GetDeviceInfo w c serial selector = Inr m)
          \<and> ((\<nexists>m. lookup envelope selector = Some (JMap m)) \<longrightarrow>
                   GetDeviceInfo w c serial selector =
                     Inl (ErrorString ''response is not valid, can't process it'')))"
proof -
  note eq = GetDeviceInfo_decoded [OF assms, of selector]
  have a: "selector = [] \<longrightarrow> GetDeviceInfo w c serial selector = Inr envelope"
    using eq by auto
  have b: "lookup envelope selector = Some (JMap m) \<longrightarrow> GetDeviceInfo w c serial selector = Inr m"
    if "selector \<noteq> []" for m
    using eq that by simp
  have c: "(\<nexists>m. lookup envelope selector = Some (JMap m)) \<longrightarrow>
             GetDeviceInfo w c serial selector =
               Inl (ErrorString ''response is not valid, can't process it'')"
    if "selector \<noteq> []"
    using eq that by (auto split: option.splits jvalue.splits)
  show ?thesis using a b c by blast
qed

lemma fixture_quota:
  "UnmarshalMap (fixtureWorld quotaBody) quotaBody =
     Inr (Some [(''code'', JStr ''0''), (''message'', JStr ''Success''),
                (''data'', JMap [(''pd.standbyMin'', JStr ''0'')])])"
  by (simp add: fixtureWorld_def quotaBody_def)

theorem device_parameters_selector_witness:
  "GetDeviceInfo (fixtureWorld quotaBody) fixtureClient ''DEV1'' [] =
      Inr [(''code'', JStr ''0''), (''message'', JStr ''Success''),
           (''data'', JMap [(''pd.standbyMin'', JStr ''0'')])]
   \<and> GetDeviceInfo (fixtureWorld quotaBody) fixtureClient ''DEV1'' ''data'' =
      Inr [(''pd.standbyMin'', JStr ''0'')]
   \<and> GetDeviceInfo (fixtureWorld quotaBody) fixtureClient ''DEV1'' ''message'' =
      Inl (ErrorString ''response is not valid, can't process it'')
   \<and> GetDeviceInfo (fixtureWorld quotaBody) fixtureClient ''DEV1'' ''quota'' =
      Inl (ErrorString ''response is not valid, can't process it'')"
proof -
  let ?env = "[(''code'', JStr ''0''), (''message'', JStr ''Success''),
                (''data'', JMap [(''pd.standbyMin'', JStr ''0'')])]"
  have c: "lookup ?env ''code'' = Some (JStr ''0'')" by (simp add: lookup_def)
  note t = device_parameters_selector [OF Execute_ok fixture_quota c]
  show ?thesis
    using t [of "[]"] t [of "''data''"] t [of "''message''"] t [of "''quota''"]
    by (simp add: lookup_def)
qed

lemma lookup_smaller: "lookup m k = Some v \<Longrightarrow> size v < size (JMap m)"
  unfolding lookup_def by (induction m) (auto split: if_splits)
text \<open>
  Claim C10.  \<open>GetDeviceAllParameters\<close> ignores its selector: for every serial and selector
  it returns what \<open>GetDeviceInfo\<close> returns for the selector \<open>"data"\<close>.  So a successful
  result is always the mapping under the top-level key \<open>data\<close> of a decoded success
  envelope, never the envelope itself.
\<close>

theorem all_parameters_ignores_selector:
  "GetDeviceAllParameters w c serial selector = GetDeviceInfo w c serial ''data''
   \<and> (\<forall>m. GetDeviceAllParameters w c serial selector = Inr m \<longrightarrow>
         (\<exists>body envelope.
            Execute w (NewHttpRequest ''GET'' (ecoflowAPI @ getAllQuotePath)
                         (Some [(''sn'', JStr serial)]) (accessToken c) (secretToken c)) = Inr body
          \<and> UnmarshalMap w body = Inr (Some envelope)
          \<and> lookup envelope ''code'' = Some (JStr ''0'')
          \<and> lookup envelope ''data'' = Some (JMap m)
          \<and> m \<noteq> envelope))"
proof (intro conjI allI impI)
  show "GetDeviceAllParameters w c serial selector = GetDeviceInfo w c serial ''data''"
    by (simp add: GetDeviceAllParameters_def)
next
  fix m
  let ?req = "NewHttpRequest ''GET'' (ecoflowAPI @ getAllQuotePath)
                (Some [(''sn'', JStr serial)]) (accessToken c) (secretToken c)"
  assume "GetDeviceAllParameters w c serial selector = Inr m"
  then have r: "GetDeviceInfo w c serial ''data'' = Inr m"
    by (simp add: GetDeviceAllParameters_def)
  then obtain body where body: "Execute w ?req = Inr body"
    by (cases "Execute w ?req") (simp_all add: GetDeviceInfo_def Let_def)
  with r obtain decoded where dec: "UnmarshalMap w body = Inr decoded"
    by (cases "UnmarshalMap w body") (simp_all add: GetDeviceInfo_def Let_def)
  from r body dec have code: "lookup (entries decoded) ''code'' = Some (JStr ''0'')"
    by (auto simp: GetDeviceInfo_def Let_def split: option.splits jvalue.splits if_splits)
  then obtain envelope where env: "decoded = Some envelope"
    by (cases decoded) (simp_all add: entries_def lookup_def)
  with code have code': "lookup envelope ''code'' = Some (JStr ''0'')"
    by (simp add: entries_def)
  from r have data: "lookup envelope ''data'' = Some (JMap m)"
    unfolding GetDeviceInfo_decoded [OF body dec [unfolded env] code']
    by (auto split: option.splits jvalue.splits)
  from lookup_smaller [OF data] have "m \<noteq> envelope" by auto
  with body dec env code' data
  show "\<exists>body envelope. Execute w ?req = Inr body
          \<and> UnmarshalMap w body = Inr (Some envelope)
          \<and> lookup envelope ''code'' = Some (JStr ''0'')
          \<and> lookup envelope ''data'' = Some (JMap m)
          \<and> m \<noteq> envelope"
    by blast
qed

theorem all_parameters_ignores_selector_witness:
  "GetDeviceAllParameters (fixtureWorld quotaBody) fixtureClient ''DEV1'' [] =
      Inr [(''pd.standbyMin'', JStr ''0'')]
   \<and> GetDeviceAllParameters (fixtureWorld quotaBody) fixtureClient ''DEV1'' ''message'' =
      Inr [(''pd.standbyMin'', JStr ''0'')]
   \<and> GetDeviceInfo (fixtureWorld quotaBody) fixtureClient ''DEV1'' ''data'' =
      Inr [(''pd.standbyMin'', JStr ''0'')]"
proof -
  let ?env = "[(''code'', JStr ''0''), (''message'', JStr ''Success''),
                (''data'', JMap [(''pd.standbyMin'', JStr ''0'')])]"
  have c: "lookup ?env ''code'' = Some (JStr ''0'')" by (simp add: lookup_def)
  have "GetDeviceInfo (fixtureWorld quotaBody) fixtureClient ''DEV1'' ''data'' =
      Inr [(''pd.standbyMin'', JStr ''0'')]"
    by (simp add: GetDeviceInfo_decoded [OF Execute_ok fixture_quota c] lookup_def)
  then show ?thesis
    using all_parameters_ignores_selector [of "fixtureWorld quotaBody" fixtureClient "''DEV1''" "[]"]
      all_parameters_ignores_selector [of "fixtureWorld quotaBody" fixtureClient "''DEV1''" "''message''"]
    by simp
qed

section \<open>The login envelope\<close>

lemma authFixture_login:
  "getLoginResponse authFixture email password = Inr (Some rejectedLogin)"
  by (simp add: getLoginResponse_def authFixture_def world.extend_def authWorld.fields_def
        fixtureWorld_def loginRequest_def Let_def)

lemma authFixture_certification:
  "requestCertification authFixture rejectedLogin = Return brokerConfig"
  by (simp add: requestCertification_def authFixture_def world.extend_def authWorld.fields_def
        fixtureWorld_def certificationRequest_def rejectedLogin_def brokerConfig_def Let_def
        ecoflowLoginUrl_def ecoflowCertificationUrl_def)

text \<open>
  Neither step of the exchange reads the code field of the envelope it decodes.  For
  every login response that the transport delivers and the decoder accepts,
  \<open>getLoginResponse\<close> returns the decoded envelope and no error, and
  \<open>getMqttCredentials\<close> continues with the certification request built from the token
  and user id of that envelope.  The signed calls \<^verbatim>\<open>GetDeviceList\<close> and \<^verbatim>\<open>GetDeviceInfo\<close>
  of the same package do return an error when the code is not \<open>"0"\<close>.
\<close>

lemma login_envelope_code_not_read:
  assumes "MarshalStrings w [(''email'', email), (''password'', EncodeBase64 w password),
                             (''scene'', ''IOT_APP''), (''userType'', ''ECOFLOW'')] = Inr jsonParams"
      and "NewRequestError w ''POST'' ecoflowLoginUrl = None"
      and "Do w (loginRequest jsonParams) = Inr resp"
      and "Body resp = Inr responseBody"
      and "UnmarshalLogin w responseBody = Inr (Some envelope)"
  shows "getLoginResponse w email password = Inr (Some envelope)
       \<and> getMqttCredentials w email password = requestCertification w envelope"
proof -
  have "getLoginResponse w email password = Inr (Some envelope)"
    using assms by (simp add: getLoginResponse_def Let_def ecoflowScene_def ecoflowUserType_def)
  then show ?thesis by (simp add: getMqttCredentials_def)
qed

text \<open>
  Claim C3.  A login envelope whose code is not \<open>"0"\<close> has to make the login fail, so
  that the credential exchange returns an error instead of going on.  The code misses
  this check.  In the world \<open>authFixture\<close> the login endpoint answers with code \<open>"1"\<close>
  and no token: \<open>getLoginResponse\<close> returns that envelope without an error, the
  certification request is sent with the authorization header \<open>Bearer\<close> followed by
  the empty token, and \<open>getMqttCredentials\<close> reports success with the broker
  configuration of the answer.
\<close>

theorem rejected_login_reported_as_success:
  "MqttLoginResponse.Code rejectedLogin \<noteq> ''0''
   \<and> getLoginResponse authFixture ''user@example.org'' ''wrong'' = Inr (Some rejectedLogin)
   \<and> Header (certificationRequest rejectedLogin ''{}'')
       = [(''Authorization'', ''Bearer ''), (''lang'', ''en_US'')]
   \<and> getMqttCredentials authFixture ''user@example.org'' ''wrong'' = Return brokerConfig"
  by (simp add: getMqttCredentials_def authFixture_login authFixture_certification
        certificationRequest_def)
     (simp add: rejectedLogin_def)

section \<open>The message handler\<close>


lemma splitAt_no_sep: "sep \<notin> set s \<Longrightarrow> splitAt sep cur s = [cur @ s]"
  by (induction s arbitrary: cur) auto

lemma splitAt_nonempty: "splitAt sep cur s \<noteq> []"
  by (induction s arbitrary: cur) auto

lemma splitAt_last: "sep \<notin> set sn \<Longrightarrow> last (splitAt sep cur (pre @ sep # sn)) = sn"
  by (induction pre arbitrary: cur) (auto simp: splitAt_no_sep splitAt_nonempty)

lemma getSnFromTopic_trailing:
  "CHR ''/'' \<notin> set sn \<Longrightarrow> getSnFromTopic (pre @ ''/'' @ sn) = sn"
  by (simp add: getSnFromTopic_def Split_def splitAt_last)

lemma Index_range: "Index s sep = - 1 \<or> (0 \<le> Index s sep \<and> nat (Index s sep) + length sep \<le> length s)"
proof (induction s)
  case Nil
  then show ?case by simp
next
  case (Cons c s)
  show ?case
  proof (cases "prefix sep (c # s)")
    case True
    then have "length sep \<le> length (c # s)" by (rule prefix_length_le)
    with True show ?thesis by simp
  next
    case False
    with Cons show ?thesis by (auto simp: Let_def nat_add_distrib)
  qed
qed

lemma Index_found: "Index s sep = int i \<Longrightarrow> take (length sep) (drop i s) = sep"
proof (induction s arbitrary: i)
  case Nil
  then show ?case by (simp split: if_splits)
next
  case (Cons c s)
  show ?case
  proof (cases "prefix sep (c # s)")
    case True
    with Cons.prems have "i = 0" by simp
    moreover from True obtain r where "c # s = sep @ r" by (auto simp: prefix_def)
    ultimately show ?thesis by simp
  next
    case False
    with Cons.prems have ne: "Index s sep \<noteq> - 1" and eq: "Index s sep + 1 = int i"
      by (auto simp: Let_def split: if_splits)
    from eq Index_range [of s sep] ne obtain j where j: "i = Suc j" "Index s sep = int j"
      by (cases i) auto
    then show ?thesis using Cons.IH [of j] by simp
  qed
qed

lemma MessageHandler_json:
  assumes "UnmarshalJSON cd (Payload msg) = Inr decoded"
  shows "\<exists>s3. MessageHandler cd s msg = handleJSON cd s3 (getSnFromTopic (Topic msg)) decoded
          \<and> callbacks s3 = callbacks s \<and> handled s3 = handled s \<and> displayed s3 = displayed s"
  using assms
  by (auto simp: MessageHandler_def GetStatEntry_def Let_def split: option.splits)

lemma MessageHandler_binary:
  assumes "UnmarshalJSON cd (Payload msg) = Inl err"
  shows "\<exists>s3. MessageHandler cd s msg = handleBinary cd s3 (getSnFromTopic (Topic msg)) (Payload msg)
          \<and> callbacks s3 = callbacks s \<and> handled s3 = handled s \<and> displayed s3 = displayed s"
  using assms
  by (auto simp: MessageHandler_def GetStatEntry_def Let_def split: option.splits)
text \<open>
  Claim C9.  The handler is not total on valid JSON.  When the payload decodes to a JSON
  object that has a key \<open>params\<close> whose value is not itself an object, the handler
  panics (in the type assertion on \<open>params\<close>, or before it in the assertions of the debug
  output); no record is passed to the callback and no binary frame is decoded.
\<close>

theorem params_not_object_panics:
  assumes "UnmarshalJSON cd (Payload msg) = Inr (Some data)"
      and "lookup data ''params'' = Some v"
      and "\<nexists>m. v = JMap m"
  shows "\<exists>s' reason. MessageHandler cd s msg = (s', Panicked reason)
           \<and> callbacks s' = callbacks s \<and> handled s' = handled s \<and> displayed s' = displayed s"
proof -
  obtain s3 where s3: "MessageHandler cd s msg = handleJSON cd s3 (getSnFromTopic (Topic msg)) (Some data)"
      "callbacks s3 = callbacks s" "handled s3 = handled s" "displayed s3 = displayed s"
    using MessageHandler_json [OF assms(1)] by blast
  have "\<exists>reason. handleJSON cd s3 sn (Some data) = (s3, Panicked reason)" for sn
    using assms(2,3) by (cases v) (auto simp: handleJSON_def entries_def)
  with s3 show ?thesis by metis
qed

lemma fixture_serial: "getSnFromTopic (Topic (fixtureMessage payload)) = ''DEV1''"
  using getSnFromTopic_trailing [of "''DEV1''" "''/app/device/property''"]
  by (simp add: fixtureMessage_def)

theorem params_not_object_panics_witness:
  \<open>\<exists>s' reason. MessageHandler fixtureCodec emptyState (fixtureMessage ''{"params":5}'')
                   = (s', Panicked reason)
                 \<and> callbacks s' = [] \<and> handled s' = [] \<and> displayed s' = []\<close>
proof -
  have a: \<open>UnmarshalJSON fixtureCodec (Payload (fixtureMessage ''{"params":5}''))
             = Inr (Some [(''params'', JFloat 0x4014000000000000)])\<close>
    by (simp add: fixtureCodec_def fixtureMessage_def)
  have b: "lookup [(''params'', JFloat 0x4014000000000000)] ''params''
             = Some (JFloat 0x4014000000000000)"
    by (simp add: lookup_def)
  have c: "\<nexists>m. JFloat 0x4014000000000000 = JMap m" by simp
  show ?thesis
    using params_not_object_panics [OF a b c, of emptyState] by (simp add: emptyState_def)
qed



lemma slice_prefix: "slice payload 0 (int n) = take n payload"
  by (simp add: slice_def)

lemma slice_suffix: "n \<le> length payload \<Longrightarrow> slice payload (int n) (int (length payload)) = drop n payload"
  by (simp add: slice_def nat_diff_distrib')

lemma handleBinary_two_frames:
  assumes "Index payload sn = int i" and "i + length sn < length payload"
  shows "handleBinary cd s sn payload =
           (let frame1 = take (i + length sn) payload;
                rest = drop (i + length sn) payload;
                j = Index rest sn;
                frame2 = (if j = - 1 then rest else take (nat j + length sn) rest)
            in (display cd (display cd s sn frame1) sn frame2, Done))"
proof -
  define n where "n = i + length sn"
  define rest where "rest = drop n payload"
  define j where "j = Index rest sn"
  have ne: "(int i \<noteq> - 1) = True" by simp
  have e1: "int i + int (length sn) = int n" by (simp add: n_def)
  have lt: "(int n < int (length payload)) = True" using assms(2) by (simp add: n_def)
  have f1: "slice payload 0 (int n) = take n payload" by (rule slice_prefix)
  have r: "slice payload (int n) (int (length payload)) = rest"
    unfolding rest_def using assms(2) by (intro slice_suffix) (simp add: n_def)
  have f2: "slice payload (int n) (int n + j + int (length sn)) = take (nat j + length sn) rest"
    if "j \<noteq> - 1"
  proof -
    from that Index_range [of rest sn] have "0 \<le> j" by (auto simp: j_def)
    then show ?thesis by (simp add: slice_def rest_def nat_add_distrib add.commute)
  qed
  have "handleBinary cd s sn payload =
          (display cd (display cd s sn (take n payload)) sn
             (slice payload (int n) (if j \<noteq> - 1 then int n + j + int (length sn)
                                     else int (length payload))), Done)"
    unfolding handleBinary_def Let_def assms(1)
    by (simp only: ne if_True e1 f1 r lt j_def)
  also have "slice payload (int n) (if j \<noteq> - 1 then int n + j + int (length sn)
                                     else int (length payload))
               = (if j = - 1 then rest else take (nat j + length sn) rest)"
    using f2 r by (cases "j = - 1") simp_all
  finally show ?thesis
    by (simp only: Let_def n_def rest_def j_def)
qed

lemma DisplayPayload_rejected:
  assumes "(\<exists>e. UnmarshalSendHeaderMsg cd frame = Inl e)
         \<or> (\<exists>platform. UnmarshalSendHeaderMsg cd frame = Inr platform
               \<and> (GetCmdId (Msg platform) \<noteq> 1 \<and> GetCmdId (Msg platform) \<noteq> 32
                  \<or> (\<exists>hdr e. Msg platform = Some hdr \<and> CmdId hdr = 1
                        \<and> UnmarshalInverterHeartbeat cd (Pdata hdr) = Inl e)
                  \<or> (\<exists>hdr e. Msg platform = Some hdr \<and> CmdId hdr = 32
                        \<and> UnmarshalPowerPack cd (Pdata hdr) = Inl e)))"
  shows "snd (DisplayPayload cd sn frame) = []"
  using assms
  by (auto simp: DisplayPayload_def GetCmdId_def split: sum.splits option.splits)

lemma DisplayPayload_heartbeat:
  assumes "UnmarshalSendHeaderMsg cd frame = Inr platform" and "Msg platform = Some hdr"
      and "CmdId hdr = 1" and "UnmarshalInverterHeartbeat cd (Pdata hdr) = Inr ih"
  shows "DisplayPayload cd sn frame = (True, [\<lparr> object = InverterHeartbeat ih, serialNumber = sn \<rparr>])"
  using assms by (simp add: DisplayPayload_def GetCmdId_def)

lemma DisplayPayload_powerpack:
  assumes "UnmarshalSendHeaderMsg cd frame = Inr platform" and "Msg platform = Some hdr"
      and "CmdId hdr = 32" and "UnmarshalPowerPack cd (Pdata hdr) = Inr pp"
  shows "DisplayPayload cd sn frame =
           (True, map (\<lambda>p. \<lparr> object = PowerStream p, serialNumber = sn \<rparr>) (SysPowerStream pp))"
  using assms by (simp add: DisplayPayload_def GetCmdId_def)
text \<open>
  Claim C5.  Let the payload not be JSON, let the serial number of the topic occur in it,
  and let bytes remain after that first occurrence.  The first frame ends right after the
  marker.  When it is malformed (the header or its \<open>Pdata\<close> does not parse) or carries a
  command id other than 1 and 32, it yields no record and the handler goes on: it
  searches the remaining bytes for the marker and decodes them, up to and including the
  second occurrence if there is one, as a second frame.  The records of the message are
  those of the second frame: one for command 1, one per element of \<open>SysPowerStream\<close> for
  command 32.
\<close>

theorem bad_first_frame_does_not_stop_second:
  assumes "UnmarshalJSON cd (Payload msg) = Inl err"
      and "sn = getSnFromTopic (Topic msg)"
      and "Index (Payload msg) sn = int i"
      and "i + length sn < length (Payload msg)"
      and "(\<exists>e. UnmarshalSendHeaderMsg cd (take (i + length sn) (Payload msg)) = Inl e)
         \<or> (\<exists>platform. UnmarshalSendHeaderMsg cd (take (i + length sn) (Payload msg)) = Inr platform
               \<and> (GetCmdId (Msg platform) \<noteq> 1 \<and> GetCmdId (Msg platform) \<noteq> 32
                  \<or> (\<exists>hdr e. Msg platform = Some hdr \<and> CmdId hdr = 1
                        \<and> UnmarshalInverterHeartbeat cd (Pdata hdr) = Inl e)
                  \<or> (\<exists>hdr e. Msg platform = Some hdr \<and> CmdId hdr = 32
                        \<and> UnmarshalPowerPack cd (Pdata hdr) = Inl e)))"
  shows "let frame1 = take (i + length sn) (Payload msg);
             rest = drop (i + length sn) (Payload msg);
             j = Index rest sn;
             frame2 = (if j = - 1 then rest else take (nat j + length sn) rest)
         in snd (DisplayPayload cd sn frame1) = []
          \<and> (\<exists>s'. MessageHandler cd s msg = (s', Done)
                \<and> displayed s' = displayed s @ [frame1, frame2]
                \<and> handled s' = handled s @ snd (DisplayPayload cd sn frame2)
                \<and> callbacks s' = callbacks s
                \<and> (\<forall>platform hdr ih.
                      UnmarshalSendHeaderMsg cd frame2 = Inr platform \<and> Msg platform = Some hdr
                      \<and> CmdId hdr = 1 \<and> UnmarshalInverterHeartbeat cd (Pdata hdr) = Inr ih
                      \<longrightarrow> handled s' = handled s @ [\<lparr> object = InverterHeartbeat ih, serialNumber = sn \<rparr>])
                \<and> (\<forall>platform hdr pp.
                      UnmarshalSendHeaderMsg cd frame2 = Inr platform \<and> Msg platform = Some hdr
                      \<and> CmdId hdr = 32 \<and> UnmarshalPowerPack cd (Pdata hdr) = Inr pp
                      \<longrightarrow> handled s' = handled s @ map (\<lambda>p. \<lparr> object = PowerStream p, serialNumber = sn \<rparr>)
                                                       (SysPowerStream pp)))"
proof -
  define frame1 where "frame1 = take (i + length sn) (Payload msg)"
  define rest where "rest = drop (i + length sn) (Payload msg)"
  define frame2 where "frame2 = (if Index rest sn = - 1 then rest
                                 else take (nat (Index rest sn) + length sn) rest)"
  obtain s3 where s3: "MessageHandler cd s msg = handleBinary cd s3 sn (Payload msg)"
      "callbacks s3 = callbacks s" "handled s3 = handled s" "displayed s3 = displayed s"
    using MessageHandler_binary [OF assms(1)] unfolding assms(2) by blast
  define s' where "s' = display cd (display cd s3 sn frame1) sn frame2"
  have run: "MessageHandler cd s msg = (s', Done)"
    unfolding s3(1) handleBinary_two_frames [OF assms(3,4)] Let_def s'_def frame1_def frame2_def rest_def
    by simp
  have first: "snd (DisplayPayload cd sn frame1) = []"
    unfolding frame1_def using assms(5) by (rule DisplayPayload_rejected)
  have disp: "displayed s' = displayed s @ [frame1, frame2]"
    by (simp add: s'_def display_def s3)
  have hand: "handled s' = handled s @ snd (DisplayPayload cd sn frame2)"
    by (simp add: s'_def display_def s3 first)
  have cb: "callbacks s' = callbacks s"
    by (simp add: s'_def display_def s3)
  have hb: "handled s' = handled s @ [\<lparr> object = InverterHeartbeat ih, serialNumber = sn \<rparr>]"
    if "UnmarshalSendHeaderMsg cd frame2 = Inr platform \<and> Msg platform = Some hdr
        \<and> CmdId hdr = 1 \<and> UnmarshalInverterHeartbeat cd (Pdata hdr) = Inr ih" for platform hdr ih
    using that hand DisplayPayload_heartbeat [of cd frame2 platform hdr ih sn] by simp
  have pp: "handled s' = handled s @ map (\<lambda>p. \<lparr> object = PowerStream p, serialNumber = sn \<rparr>)
                                       (SysPowerStream pp)"
    if "UnmarshalSendHeaderMsg cd frame2 = Inr platform \<and> Msg platform = Some hdr
        \<and> CmdId hdr = 32 \<and> UnmarshalPowerPack cd (Pdata hdr) = Inr pp" for platform hdr pp
    using that hand DisplayPayload_powerpack [of cd frame2 platform hdr pp sn] by simp
  have "snd (DisplayPayload cd sn frame1) = []
          \<and> (\<exists>s'. MessageHandler cd s msg = (s', Done)
                \<and> displayed s' = displayed s @ [frame1, frame2]
                \<and> handled s' = handled s @ snd (DisplayPayload cd sn frame2)
                \<and> callbacks s' = callbacks s
                \<and> (\<forall>platform hdr ih.
                      UnmarshalSendHeaderMsg cd frame2 = Inr platform \<and> Msg platform = Some hdr
                      \<and> CmdId hdr = 1 \<and> UnmarshalInverterHeartbeat cd (Pdata hdr) = Inr ih
                      \<longrightarrow> handled s' = handled s @ [\<lparr> object = InverterHeartbeat ih, serialNumber = sn \<rparr>])
                \<and> (\<forall>platform hdr pp.
                      UnmarshalSendHeaderMsg cd frame2 = Inr platform \<and> Msg platform = Some hdr
                      \<and> CmdId hdr = 32 \<and> UnmarshalPowerPack cd (Pdata hdr) = Inr pp
                      \<longrightarrow> handled s' = handled s @ map (\<lambda>p. \<lparr> object = PowerStream p, serialNumber = sn \<rparr>)
                                                       (SysPowerStream pp)))"
    using first run disp hand cb hb pp
    by (intro conjI exI [of _ s'] allI impI) blast+
  then show ?thesis
    unfolding Let_def frame1_def frame2_def rest_def .
qed


theorem bad_first_frame_does_not_stop_second_witness:
  "(\<exists>s'. MessageHandler fixtureCodec emptyState (fixtureMessage ''<garbage>DEV1<powerpack>DEV1'')
            = (s', Done)
        \<and> displayed s' = [''<garbage>DEV1'', ''<powerpack>DEV1'']
        \<and> handled s' = [\<lparr> object = PowerStream ''stream 1'', serialNumber = ''DEV1'' \<rparr>,
                         \<lparr> object = PowerStream ''stream 2'', serialNumber = ''DEV1'' \<rparr>]
        \<and> callbacks s' = [])
   \<and> (\<exists>s'. MessageHandler fixtureCodec emptyState (fixtureMessage ''<other>DEV1<heartbeat>DEV1'')
            = (s', Done)
        \<and> displayed s' = [''<other>DEV1'', ''<heartbeat>DEV1'']
        \<and> handled s' = [\<lparr> object = InverterHeartbeat ''heartbeat'', serialNumber = ''DEV1'' \<rparr>]
        \<and> callbacks s' = [])"
proof -
  let ?p1 = "''<garbage>DEV1<powerpack>DEV1''"
  let ?p2 = "''<other>DEV1<heartbeat>DEV1''"
  have sn: "''DEV1'' = getSnFromTopic (Topic (fixtureMessage p))" for p
    by (simp add: fixture_serial)
  have j1: "UnmarshalJSON fixtureCodec (Payload (fixtureMessage ?p1)) = Inl (External ''invalid character'')"
    by (simp add: fixtureCodec_def fixtureMessage_def)
  have j2: "UnmarshalJSON fixtureCodec (Payload (fixtureMessage ?p2)) = Inl (External ''invalid character'')"
    by (simp add: fixtureCodec_def fixtureMessage_def)
  have i1: "Index (Payload (fixtureMessage ?p1)) ''DEV1'' = int 9"
    by (simp add: fixtureMessage_def)
  have i2: "Index (Payload (fixtureMessage ?p2)) ''DEV1'' = int 7"
    by (simp add: fixtureMessage_def)
  have l1: "9 + length ''DEV1'' < length (Payload (fixtureMessage ?p1))"
    by (simp add: fixtureMessage_def)
  have l2: "7 + length ''DEV1'' < length (Payload (fixtureMessage ?p2))"
    by (simp add: fixtureMessage_def)
  have b1: "(\<exists>e. UnmarshalSendHeaderMsg fixtureCodec
                   (take (9 + length ''DEV1'') (Payload (fixtureMessage ?p1))) = Inl e)
         \<or> (\<exists>platform. UnmarshalSendHeaderMsg fixtureCodec
                   (take (9 + length ''DEV1'') (Payload (fixtureMessage ?p1))) = Inr platform
               \<and> (GetCmdId (Msg platform) \<noteq> 1 \<and> GetCmdId (Msg platform) \<noteq> 32
                  \<or> (\<exists>hdr e. Msg platform = Some hdr \<and> CmdId hdr = 1
                        \<and> UnmarshalInverterHeartbeat fixtureCodec (Pdata hdr) = Inl e)
                  \<or> (\<exists>hdr e. Msg platform = Some hdr \<and> CmdId hdr = 32
                        \<and> UnmarshalPowerPack fixtureCodec (Pdata hdr) = Inl e)))"
    by (simp add: fixtureCodec_def fixtureMessage_def)
  have b2: "(\<exists>e. UnmarshalSendHeaderMsg fixtureCodec
                   (take (7 + length ''DEV1'') (Payload (fixtureMessage ?p2))) = Inl e)
         \<or> (\<exists>platform. UnmarshalSendHeaderMsg fixtureCodec
                   (take (7 + length ''DEV1'') (Payload (fixtureMessage ?p2))) = Inr platform
               \<and> (GetCmdId (Msg platform) \<noteq> 1 \<and> GetCmdId (Msg platform) \<noteq> 32
                  \<or> (\<exists>hdr e. Msg platform = Some hdr \<and> CmdId hdr = 1
                        \<and> UnmarshalInverterHeartbeat fixtureCodec (Pdata hdr) = Inl e)
                  \<or> (\<exists>hdr e. Msg platform = Some hdr \<and> CmdId hdr = 32
                        \<and> UnmarshalPowerPack fixtureCodec (Pdata hdr) = Inl e)))"
    by (simp add: fixtureCodec_def fixtureMessage_def GetCmdId_def)
  have d1: "snd (DisplayPayload fixtureCodec ''DEV1'' ''<powerpack>DEV1'')
              = [\<lparr> object = PowerStream ''stream 1'', serialNumber = ''DEV1'' \<rparr>,
                 \<lparr> object = PowerStream ''stream 2'', serialNumber = ''DEV1'' \<rparr>]"
    by (simp add: DisplayPayload_def fixtureCodec_def GetCmdId_def)
  have d2: "snd (DisplayPayload fixtureCodec ''DEV1'' ''<heartbeat>DEV1'')
              = [\<lparr> object = InverterHeartbeat ''heartbeat'', serialNumber = ''DEV1'' \<rparr>]"
    by (simp add: DisplayPayload_def fixtureCodec_def GetCmdId_def)
  have "\<exists>s'. MessageHandler fixtureCodec emptyState (fixtureMessage ?p1) = (s', Done)
        \<and> displayed s' = [''<garbage>DEV1'', ''<powerpack>DEV1'']
        \<and> handled s' = [\<lparr> object = PowerStream ''stream 1'', serialNumber = ''DEV1'' \<rparr>,
                         \<lparr> object = PowerStream ''stream 2'', serialNumber = ''DEV1'' \<rparr>]
        \<and> callbacks s' = []"
    using bad_first_frame_does_not_stop_second [OF j1 sn i1 l1 b1, of emptyState]
    by (auto simp: Let_def fixtureMessage_def emptyState_def d1)
  moreover have "\<exists>s'. MessageHandler fixtureCodec emptyState (fixtureMessage ?p2) = (s', Done)
        \<and> displayed s' = [''<other>DEV1'', ''<heartbeat>DEV1'']
        \<and> handled s' = [\<lparr> object = InverterHeartbeat ''heartbeat'', serialNumber = ''DEV1'' \<rparr>]
        \<and> callbacks s' = []"
    using bad_first_frame_does_not_stop_second [OF j2 sn i2 l2 b2, of emptyState]
    by (auto simp: Let_def fixtureMessage_def emptyState_def d2)
  ultimately show ?thesis by (rule conjI)
qed

section \<open>Concurrent recordings\<close>

lemmas goroutine_defs = stepGoroutine_def invocations_def brokerCounter_def Let_def

text \<open>
  Claim C6 says that N concurrent recordings for one serial number leave the counter at
  N whatever the interleaving.  For two invocations that both record the first message of
  the device \<open>DEV1\<close> this fails: when both look the serial number up before either
  stores its new entry, each allocates an entry of its own, the second store replaces
  the first in the map, and each invocation increments its own entry under its own
  mutex.  Both return, and the counter that the map holds is 1.  Run one after the
  other, the same two invocations leave it at 2.
\<close>

theorem concurrent_first_recordings_lose_a_count:
  "(case runSchedule ''DEV1'' [0, 1, 0, 1, 0, 0, 0, 1, 1, 1] (invocations 2) of
      None \<Rightarrow> None
    | Some c \<Rightarrow> Some (pcs c, brokerCounter ''DEV1'' c)) = Some ([Returned, Returned], Some 1)
   \<and> (case runSchedule ''DEV1'' [0, 0, 0, 0, 0, 1, 1, 1, 1] (invocations 2) of
      None \<Rightarrow> None
    | Some c \<Rightarrow> Some (pcs c, brokerCounter ''DEV1'' c)) = Some ([Returned, Returned], Some 2)"
  by (simp add: goroutine_defs numeral_2_eq_2)

end
